theory Spec2Isabelle
  imports Main
begin

section \<open>Values shared by the backend and the client\<close>

text \<open>
  The objects that travel between the Express handlers, the error handler and the
  client are JavaScript values. Objects keep their keys in insertion order, so an
  object is an association list.
\<close>

datatype json =
    JUndefined
  | JNull
  | JBool bool
  | JNum int
  | JStr string
  | JArr "json list"
  | JObj "(string \<times> json) list"

text \<open>
  A field read from \<open>req.body\<close>, from \<open>process.env\<close> or from a header is a string or is
  absent. \<open>value_of\<close> reads it, \<open>falsy\<close> is JavaScript's \<open>!x\<close> on such a field: true
  for \<open>undefined\<close> and for the empty string.
\<close>

fun value_of :: "string option \<Rightarrow> string" where
  "value_of None = []"
| "value_of (Some s) = s"

definition falsy :: "string option \<Rightarrow> bool" where
  "falsy x = (value_of x = [])"

definition truthy :: "string option \<Rightarrow> bool" where
  "truthy x = (value_of x \<noteq> [])"

definition of_field :: "string option \<Rightarrow> json" where
  "of_field x = (case x of None \<Rightarrow> JUndefined | Some s \<Rightarrow> JStr s)"

text \<open>
  What \<open>res.json(obj)\<close> puts on the wire is \<open>JSON.stringify(obj)\<close>: a property whose
  value is \<open>undefined\<close> is left out of its object, and \<open>undefined\<close> inside an array
  becomes \<open>null\<close>. \<open>res_json\<close> is the value the receiver parses.
\<close>

primrec res_json :: "json \<Rightarrow> json" where
  "res_json JUndefined = JUndefined"
| "res_json JNull = JNull"
| "res_json (JBool b) = JBool b"
| "res_json (JNum n) = JNum n"
| "res_json (JStr s) = JStr s"
| "res_json (JArr xs) =
     JArr (map (\<lambda>x. if x = JUndefined then JNull else x) (map res_json xs))"
| "res_json (JObj kvs) =
     JObj (filter (\<lambda>kv. snd kv \<noteq> JUndefined) (map (map_prod id res_json) kvs))"

text \<open>An exception that is not an \<open>AppError\<close>: its name and its message.\<close>

datatype exn = Exn (exn_name: string) (exn_message: string)

section \<open>utils/appError.js\<close>

record AppError =
  message :: string
  statusCode :: nat
  status :: string
  isOperational :: bool
  errorCode :: "string option"
  details :: json
  stack :: string

text \<open>
  The constructor computes \<open>status\<close> from the first character of the decimal form of
  the status code. \<open>stack\<close> is what \<open>Error.captureStackTrace\<close> records: it depends on
  the place of the call, which the caller passes here as \<open>site\<close>.
\<close>

function leading_digit :: "nat \<Rightarrow> nat" where
  "leading_digit n = (if n < 10 then n else leading_digit (n div 10))"
  by pat_completeness auto
termination
  by (relation "measure id") auto

declare leading_digit.simps [simp del]

definition AppError_new :: "string \<Rightarrow> nat \<Rightarrow> string option \<Rightarrow> json \<Rightarrow> string \<Rightarrow> AppError" where
  "AppError_new msg sc ec det site =
     \<lparr> message = msg,
       statusCode = sc,
       status = (if leading_digit sc = 4 then ''fail'' else ''error''),
       isOperational = True,
       errorCode = ec,
       details = det,
       stack = site \<rparr>"

definition create_badRequest :: "string \<Rightarrow> json \<Rightarrow> string \<Rightarrow> AppError" where
  "create_badRequest msg det site = AppError_new msg 400 (Some ''BAD_REQUEST'') det site"

definition create_unauthorized :: "string \<Rightarrow> json \<Rightarrow> string \<Rightarrow> AppError" where
  "create_unauthorized msg det site = AppError_new msg 401 (Some ''UNAUTHORIZED'') det site"

definition create_forbidden :: "string \<Rightarrow> json \<Rightarrow> string \<Rightarrow> AppError" where
  "create_forbidden msg det site = AppError_new msg 403 (Some ''FORBIDDEN'') det site"

definition create_notFound :: "string \<Rightarrow> json \<Rightarrow> string \<Rightarrow> AppError" where
  "create_notFound msg det site = AppError_new msg 404 (Some ''NOT_FOUND'') det site"

definition create_conflict :: "string \<Rightarrow> json \<Rightarrow> string \<Rightarrow> AppError" where
  "create_conflict msg det site = AppError_new msg 409 (Some ''CONFLICT'') det site"

definition create_internalServer :: "string \<Rightarrow> json \<Rightarrow> string \<Rightarrow> AppError" where
  "create_internalServer msg det site =
     AppError_new msg 500 (Some ''INTERNAL_SERVER_ERROR'') det site"

section \<open>Process configuration and the packages the backend calls\<close>

record env =
  JWT_SECRET :: "string option"
  JWT_EXPIRES_IN :: "string option"
  NODE_ENV :: "string option"

text \<open>
  A signed token, as the record of what it asserts and of the key that signed it. The
  compact serialisation and the signature arithmetic belong to the \<open>jsonwebtoken\<close>
  package; they enter through \<open>jwt_encode\<close> and \<open>jwt_decode\<close> below.
\<close>

record jwt =
  jwt_id :: string
  jwt_iat :: nat
  jwt_exp :: nat
  jwt_key :: string

text \<open>
  The packages \<open>bcryptjs\<close>, \<open>jsonwebtoken\<close> and \<open>ms\<close> are dependencies, not sources of
  this repository. What the handlers need of them is passed in:
  \<^item> \<open>bcrypt_digest salt plaintext\<close>, the digest part of a hash, and
    \<open>bcrypt_compare plaintext hashed\<close>;
  \<^item> \<open>jwt_encode\<close>, the compact string of a signed token, and \<open>jwt_decode\<close>, which
    reads a string back (\<open>None\<close> for a malformed one);
  \<^item> \<open>ms_timespan\<close>, the number of seconds a span such as \<open>1d\<close> stands for
    (\<open>None\<close> when the string is no span).
\<close>

record deps =
  bcrypt_digest :: "string \<Rightarrow> string \<Rightarrow> string"
  bcrypt_compare :: "string \<Rightarrow> string \<Rightarrow> bool"
  jwt_encode :: "jwt \<Rightarrow> string"
  jwt_decode :: "string \<Rightarrow> jwt option"
  ms_timespan :: "string \<Rightarrow> nat option"

text \<open>
  Modelled from the spec: \<open>bcrypt.hash\<close> of the bcryptjs package is not among the
  sources. The spec's Password Hasher bakes the salt into its output, so that verification
  needs no separate salt: the hashed value is the salt followed by the digest.
  \<open>scripts/createUser.js\<close> calls it this way, \<open>bcrypt.hash(plaintext, salt)\<close> with the
  salt drawn by \<open>bcrypt.genSalt\<close>.
\<close>

definition bcrypt_hash :: "deps \<Rightarrow> string \<Rightarrow> string \<Rightarrow> string" where
  "bcrypt_hash d s p = s @ bcrypt_digest d s p"

text \<open>
  Modelled from the spec: \<open>jwt.sign\<close> of the jsonwebtoken package is not among the
  sources. The spec's Token Issuer embeds the user id and the computed expiry and signs
  with the server-held secret; the package refuses an absent secret and a string that is
  no time span. Time is the clock reading \<open>now\<close>, in seconds.
\<close>

definition jwt_sign :: "deps \<Rightarrow> nat \<Rightarrow> string \<Rightarrow> string option \<Rightarrow> string \<Rightarrow> exn + string" where
  "jwt_sign d now i secret expiresIn =
     (if falsy secret then Inl (Exn ''Error'' ''secretOrPrivateKey must have a value'')
      else case ms_timespan d expiresIn of
        None \<Rightarrow> Inl (Exn ''Error'' ''expiresIn should be a number of seconds or string representing a timespan'')
      | Some span \<Rightarrow>
          Inr (jwt_encode d
                 \<lparr> jwt_id = i, jwt_iat = now, jwt_exp = now + span,
                   jwt_key = value_of secret \<rparr>))"

text \<open>
  Modelled from the spec: \<open>jwt.verify\<close> of the jsonwebtoken package is not among the
  sources. The spec's Token Verifier is stateless: a signature check and an expiry
  check. A token is expired from the instant \<open>jwt_exp\<close> on.
\<close>

definition jwt_verify :: "deps \<Rightarrow> nat \<Rightarrow> string \<Rightarrow> string option \<Rightarrow> exn + jwt" where
  "jwt_verify d now tok secret =
     (case jwt_decode d tok of
        None \<Rightarrow> Inl (Exn ''JsonWebTokenError'' ''jwt malformed'')
      | Some t \<Rightarrow>
          if falsy secret then
            Inl (Exn ''JsonWebTokenError'' ''secret or public key must be provided'')
          else if jwt_key t \<noteq> value_of secret then
            Inl (Exn ''JsonWebTokenError'' ''invalid signature'')
          else if jwt_exp t \<le> now then
            Inl (Exn ''TokenExpiredError'' ''jwt expired'')
          else Inr t)"

section \<open>The Credential Store (models/User.js)\<close>

record user =
  u_id :: string
  u_firstName :: "string option"
  u_lastName :: "string option"
  u_email :: string
  u_password :: string
  u_role :: string

text \<open>
  The store holds the user documents. A store that cannot be reached rejects every
  query; the handlers' \<open>catch\<close> blocks are written for that.
\<close>

record store =
  users :: "user list"
  connected :: bool

definition store_fault :: exn where
  "store_fault = Exn ''MongooseError'' ''Operation buffering timed out''"

text \<open>
  Modelled from the spec: \<open>models/User.js\<close> is not among the sources. The spec's
  Credential Store is addressed by unique email; \<open>User.findOne({ email })\<close> resolves to
  the record with that email, or to null.
\<close>

definition User_findOne :: "store \<Rightarrow> string \<Rightarrow> exn + user option" where
  "User_findOne st e =
     (if connected st then Inr (find (\<lambda>u. u_email u = e) (users st))
      else Inl store_fault)"

text \<open>
  Modelled from the spec: \<open>models/User.js\<close> is not among the sources.
  \<open>User.findById(id)\<close> resolves to the record with that identifier, or to null.
\<close>

definition User_findById :: "store \<Rightarrow> string \<Rightarrow> exn + user option" where
  "User_findById st i =
     (if connected st then Inr (find (\<lambda>u. u_id u = i) (users st))
      else Inl store_fault)"

text \<open>The argument of \<open>User.create\<close>, as the register handler builds it.\<close>

record new_user =
  n_firstName :: "string option"
  n_lastName :: "string option"
  n_email :: string
  n_password :: string
  n_role :: string

text \<open>What is drawn at random during one creation: the identifier and the salt.\<close>

record entropy =
  oid :: string
  salt :: string

text \<open>
  Modelled from the spec: \<open>models/User.js\<close> is not among the sources. The spec's
  Register step 3 hashes the password via the Password Hasher, then constructs and
  persists the record; the unique identifier is assigned by the store on creation; email
  uniqueness is enforced at creation.
\<close>

definition User_create :: "deps \<Rightarrow> entropy \<Rightarrow> store \<Rightarrow> new_user \<Rightarrow> exn + (user \<times> store)" where
  "User_create d r st n =
     (if connected st then
        (case find (\<lambda>u. u_email u = n_email n) (users st) of
           Some _ \<Rightarrow> Inl (Exn ''MongoServerError'' ''E11000 duplicate key error'')
         | None \<Rightarrow>
             (let u = \<lparr> u_id = oid r,
                        u_firstName = n_firstName n,
                        u_lastName = n_lastName n,
                        u_email = n_email n,
                        u_password = bcrypt_hash d (salt r) (n_password n),
                        u_role = n_role n \<rparr>
              in Inr (u, st\<lparr>users := users st @ [u]\<rparr>)))
      else Inl store_fault)"

text \<open>
  Modelled from the spec: \<open>models/User.js\<close> is not among the sources. The spec's
  \<open>verify(plaintext, hashedValue)\<close> of the Password Hasher, on the record's stored hash.
\<close>

definition comparePassword :: "deps \<Rightarrow> user \<Rightarrow> string \<Rightarrow> bool" where
  "comparePassword d u candidate = bcrypt_compare d candidate (u_password u)"

section \<open>middleware/authMiddleware.js: issuing a token\<close>

text \<open>
  \<open>generateToken(id)\<close> signs \<open>{ id }\<close> with \<open>process.env.JWT_SECRET\<close>; the expiry is
  \<open>process.env.JWT_EXPIRES_IN || '1d'\<close>.
\<close>

definition expiresIn :: "env \<Rightarrow> string" where
  "expiresIn ev =
     (if truthy (JWT_EXPIRES_IN ev) then value_of (JWT_EXPIRES_IN ev) else ''1d'')"

definition generateToken :: "deps \<Rightarrow> env \<Rightarrow> nat \<Rightarrow> string \<Rightarrow> exn + string" where
  "generateToken d ev now i = jwt_sign d now i (JWT_SECRET ev) (expiresIn ev)"

section \<open>controllers/userController.js\<close>

text \<open>
  The fields of \<open>req.body\<close> that the handlers destructure, each a string or absent
  (the client's \<open>RegisterData\<close> and \<open>LoginData\<close> send strings). A response is the status
  code and the body on the wire, \<open>res_json\<close> of the object handed to \<open>res.json\<close>.
\<close>

record body =
  b_firstName :: "string option"
  b_lastName :: "string option"
  b_email :: "string option"
  b_password :: "string option"
  b_role :: "string option"

record response =
  code :: nat
  payload :: json

text \<open>
  A handler either answers (\<open>res.status(..).json(..)\<close>) or hands an \<open>AppError\<close> to
  \<open>next\<close>.
\<close>

datatype outcome = Responded response | Next AppError

definition missingFields :: "body \<Rightarrow> json" where
  "missingFields b =
     JArr (if falsy (b_email b) then [JStr ''email'']
           else if falsy (b_password b) then [JStr ''password'']
           else [])"

text \<open>
  The object literal \<open>userResponse\<close>, as the handler builds it: a name the record lacks
  is a property with the value \<open>undefined\<close> here, and is gone from the body sent.
\<close>

definition userResponse :: "user \<Rightarrow> json" where
  "userResponse u =
     JObj [(''_id'', JStr (u_id u)),
           (''firstName'', of_field (u_firstName u)),
           (''lastName'', of_field (u_lastName u)),
           (''email'', JStr (u_email u)),
           (''role'', JStr (u_role u))]"

definition registration_failed :: "exn \<Rightarrow> AppError" where
  "registration_failed e =
     create_internalServer ''Registration failed''
       (JObj [(''originalError'', JStr (exn_message e))]) ''userController.js:60''"

text \<open>
  \<open>UserController.register\<close>. The store is threaded through: the only write is
  \<open>User.create\<close>. An exception of any awaited call, and of \<open>generateToken\<close>, lands in
  the \<open>catch\<close> block.
\<close>

definition register :: "deps \<Rightarrow> env \<Rightarrow> nat \<Rightarrow> entropy \<Rightarrow> store \<Rightarrow> body \<Rightarrow> store \<times> outcome" where
  "register d ev now r st b =
     (if falsy (b_email b) \<or> falsy (b_password b) then
        (st, Next (create_badRequest ''Please provide email and password''
                     (JObj [(''missingFields'', missingFields b)]) ''userController.js:20''))
      else
        (case User_findOne st (value_of (b_email b)) of
           Inl e \<Rightarrow> (st, Next (registration_failed e))
         | Inr (Some existingUser) \<Rightarrow>
             (st, Next (create_conflict ''User with this email already exists''
                          (JObj [(''email'', of_field (b_email b))]) ''userController.js:28''))
         | Inr None \<Rightarrow>
             (case User_create d r st
                     \<lparr> n_firstName = b_firstName b,
                       n_lastName = b_lastName b,
                       n_email = value_of (b_email b),
                       n_password = value_of (b_password b),
                       n_role = (if truthy (b_role b) then value_of (b_role b) else ''user'') \<rparr> of
                Inl e \<Rightarrow> (st, Next (registration_failed e))
              | Inr (newUser, st') \<Rightarrow>
                  (case generateToken d ev now (u_id newUser) of
                     Inl e \<Rightarrow> (st', Next (registration_failed e))
                   | Inr token \<Rightarrow>
                       (st', Responded
                          \<lparr> code = 201,
                            payload = res_json
                              (JObj [(''status'', JStr ''success''),
                                     (''token'', JStr token),
                                     (''data'', JObj [(''user'', userResponse newUser)])]) \<rparr>)))))"

definition login_failed :: "exn \<Rightarrow> AppError" where
  "login_failed e =
     create_internalServer ''Login process failed''
       (JObj [(''originalError'', JStr (exn_message e)),
              (''errorDetails'', JObj [(''name'', JStr (exn_name e)),
                                       (''message'', JStr (exn_message e))])])
       ''userController.js:198''"

text \<open>
  \<open>UserController.login\<close>. It reads the store and never writes it. The calls to
  \<open>console\<close> leave no trace in the answer and are left out.
\<close>

definition login :: "deps \<Rightarrow> env \<Rightarrow> nat \<Rightarrow> store \<Rightarrow> body \<Rightarrow> outcome" where
  "login d ev now st b =
     (if falsy (b_email b) \<or> falsy (b_password b) then
        Next (create_badRequest ''Please provide email and password''
                (JObj [(''missingFields'', missingFields b)]) ''userController.js:106'')
      else
        (case User_findOne st (value_of (b_email b)) of
           Inl e \<Rightarrow> Next (login_failed e)
         | Inr None \<Rightarrow>
             Next (create_unauthorized ''Incorrect email or password''
                     (JObj [(''email'', of_field (b_email b)),
                            (''reason'', JStr ''User not found'')]) ''userController.js:133'')
         | Inr (Some u) \<Rightarrow>
             if \<not> comparePassword d u (value_of (b_password b)) then
               Next (create_unauthorized ''Incorrect email or password''
                       (JObj [(''email'', of_field (b_email b)),
                              (''reason'', JStr ''Password mismatch'')]) ''userController.js:160'')
             else
               (case generateToken d ev now (u_id u) of
                  Inl e \<Rightarrow> Next (login_failed e)
                | Inr token \<Rightarrow>
                    Responded
                      \<lparr> code = 200,
                        payload = res_json
                          (JObj [(''status'', JStr ''success''),
                                 (''token'', JStr token),
                                 (''data'', JObj [(''user'',
                                    JObj [(''_id'', JStr (u_id u)),
                                          (''email'', JStr (u_email u)),
                                          (''role'', JStr (u_role u))])])]) \<rparr>)))"

section \<open>routes/authRoutes.js\<close>

text \<open>
  The router's error handler: the status code is \<open>err.statusCode || 500\<close>; the body
  carries \<open>status\<close> and \<open>message\<close>, and in development mode also the stage reached and
  the stack.
\<close>

definition errorHandler :: "env \<Rightarrow> string \<Rightarrow> AppError \<Rightarrow> response" where
  "errorHandler ev stage err =
     \<lparr> code = (if statusCode err = 0 then 500 else statusCode err),
       payload = res_json
         (JObj ([(''status'', JStr ''error''), (''message'', JStr (message err))] @
                (if NODE_ENV ev = Some ''development''
                 then [(''stage'', JStr stage), (''stack'', JStr (stack err))]
                 else []))) \<rparr>"

definition dispatch :: "env \<Rightarrow> string \<Rightarrow> outcome \<Rightarrow> response" where
  "dispatch ev stage out =
     (case out of Responded res \<Rightarrow> res | Next err \<Rightarrow> errorHandler ev stage err)"

text \<open>
  \<open>POST /register\<close> reaches the controller with \<open>req.middlewareStage = 'initial'\<close>;
  \<open>POST /login\<close> passes a handler that sets it to \<open>'login-route'\<close>.
\<close>

definition post_register :: "deps \<Rightarrow> env \<Rightarrow> nat \<Rightarrow> entropy \<Rightarrow> store \<Rightarrow> body \<Rightarrow> store \<times> response" where
  "post_register d ev now r st b =
     (case register d ev now r st b of (st', out) \<Rightarrow> (st', dispatch ev ''initial'' out))"

definition post_login :: "deps \<Rightarrow> env \<Rightarrow> nat \<Rightarrow> store \<Rightarrow> body \<Rightarrow> response" where
  "post_login d ev now st b = dispatch ev ''login-route'' (login d ev now st b)"

section \<open>middleware/authMiddleware.js: protecting a route\<close>

text \<open>\<open>String.prototype.startsWith\<close> and \<open>String.prototype.split\<close> on one character.\<close>

definition startsWith :: "string \<Rightarrow> string \<Rightarrow> bool" where
  "startsWith s p = (take (length p) s = p)"

fun split :: "char \<Rightarrow> string \<Rightarrow> string list" where
  "split c [] = [[]]"
| "split c (x # xs) =
     (if x = c then [] # split c xs
      else (case split c xs of [] \<Rightarrow> [[x]] | w # ws \<Rightarrow> (x # w) # ws))"

text \<open>Reading an array at an index: \<open>undefined\<close> beyond its end.\<close>

definition at_index :: "string list \<Rightarrow> nat \<Rightarrow> string option" where
  "at_index xs i = (if i < length xs then Some (xs ! i) else None)"

record request =
  authorization :: "string option"

definition bearer_token :: "request \<Rightarrow> string option" where
  "bearer_token req =
     (if truthy (authorization req) \<and> startsWith (value_of (authorization req)) ''Bearer''
      then at_index (split CHR '' '' (value_of (authorization req))) 1
      else None)"

definition unauthorized_json :: "string \<Rightarrow> response" where
  "unauthorized_json msg =
     \<lparr> code = 401,
       payload = res_json (JObj [(''status'', JStr ''error''), (''message'', JStr msg)]) \<rparr>"

text \<open>
  \<open>protect\<close> either answers 401 or attaches the user to the request and calls
  \<open>next()\<close>. The \<open>try\<close> block covers the verification and the lookup alike.
\<close>

datatype guarded = Rejected response | Attached user

definition protect :: "deps \<Rightarrow> env \<Rightarrow> nat \<Rightarrow> store \<Rightarrow> request \<Rightarrow> guarded" where
  "protect d ev now st req =
     (if falsy (bearer_token req) then
        Rejected (unauthorized_json ''Not authorized to access this route'')
      else
        (case jwt_verify d now (value_of (bearer_token req)) (JWT_SECRET ev) of
           Inl e \<Rightarrow> Rejected (unauthorized_json ''Token is invalid or has expired'')
         | Inr decoded \<Rightarrow>
             (case User_findById st (jwt_id decoded) of
                Inl e \<Rightarrow> Rejected (unauthorized_json ''Token is invalid or has expired'')
              | Inr None \<Rightarrow> Rejected (unauthorized_json ''User no longer exists'')
              | Inr (Some currentUser) \<Rightarrow> Attached currentUser)))"

section \<open>Reading a JavaScript object\<close>

definition keys :: "json \<Rightarrow> string list" where
  "keys j = (case j of JObj kvs \<Rightarrow> map fst kvs | _ \<Rightarrow> [])"

definition field :: "json \<Rightarrow> string \<Rightarrow> json" where
  "field j k =
     (case j of
        JObj kvs \<Rightarrow> (case map_of kvs k of None \<Rightarrow> JUndefined | Some v \<Rightarrow> v)
      | _ \<Rightarrow> JUndefined)"

section \<open>frontend: services/authService.ts\<close>

record LoginData =
  l_email :: string
  l_password :: string

record RegisterData =
  r_firstName :: string
  r_lastName :: string
  r_email :: string
  r_password :: string

datatype post_data = LoginBody LoginData | RegisterBody RegisterData

text \<open>
  \<open>AuthResponse\<close>: the token and \<open>data.user\<close>. The interface types both as present;
  the token may still be the empty string.
\<close>

record AuthResponse =
  token :: string
  data_user :: json

text \<open>
  What the browser and the network do for the client: \<open>axiosInstance.post\<close> resolves
  to the response data or rejects; \<open>JSON.stringify\<close> and \<open>JSON.parse\<close> are the
  built-in functions, the latter throwing on a string that is no JSON text.
\<close>

record browser =
  axios_post :: "string \<Rightarrow> post_data \<Rightarrow> exn + AuthResponse"
  JSON_stringify :: "json \<Rightarrow> string"
  JSON_parse :: "string \<Rightarrow> exn + json"

text \<open>\<open>localStorage\<close>: \<open>getItem\<close> is the lookup, null for a key that was never set.\<close>

type_synonym localStorage = "string \<rightharpoonup> string"

definition store_credentials :: "browser \<Rightarrow> localStorage \<Rightarrow> AuthResponse \<Rightarrow> localStorage" where
  "store_credentials br ls res =
     (if token res \<noteq> [] then
        (ls(''token'' \<mapsto> token res))(''user'' \<mapsto> JSON_stringify br (data_user res))
      else ls)"

definition AuthService_register ::
  "browser \<Rightarrow> localStorage \<Rightarrow> RegisterData \<Rightarrow> localStorage \<times> (exn + AuthResponse)" where
  "AuthService_register br ls userData =
     (case axios_post br ''/api/auth/register'' (RegisterBody userData) of
        Inl error \<Rightarrow> (ls, Inl error)
      | Inr res \<Rightarrow> (store_credentials br ls res, Inr res))"

definition AuthService_login ::
  "browser \<Rightarrow> localStorage \<Rightarrow> LoginData \<Rightarrow> localStorage \<times> (exn + AuthResponse)" where
  "AuthService_login br ls credentials =
     (case axios_post br ''/api/auth/login'' (LoginBody credentials) of
        Inl error \<Rightarrow> (ls, Inl error)
      | Inr res \<Rightarrow> (store_credentials br ls res, Inr res))"

definition AuthService_logout :: "localStorage \<Rightarrow> localStorage" where
  "AuthService_logout ls = (ls(''token'' := None))(''user'' := None)"

definition AuthService_getCurrentUser :: "browser \<Rightarrow> localStorage \<Rightarrow> exn + json" where
  "AuthService_getCurrentUser br ls =
     (if truthy (ls ''user'') then JSON_parse br (value_of (ls ''user'')) else Inr JNull)"

definition AuthService_isAuthenticated :: "localStorage \<Rightarrow> bool" where
  "AuthService_isAuthenticated ls = truthy (ls ''token'')"

definition AuthService_getToken :: "localStorage \<Rightarrow> string option" where
  "AuthService_getToken ls = ls ''token''"

text \<open>One call of the service, with the browser and network it meets.\<close>

datatype service_call =
    CallRegister browser RegisterData
  | CallLogin browser LoginData
  | CallLogout

fun service_step :: "localStorage \<Rightarrow> service_call \<Rightarrow> localStorage" where
  "service_step ls (CallRegister br userData) = fst (AuthService_register br ls userData)"
| "service_step ls (CallLogin br credentials) = fst (AuthService_login br ls credentials)"
| "service_step ls CallLogout = AuthService_logout ls"

definition service_run :: "localStorage \<Rightarrow> service_call list \<Rightarrow> localStorage" where
  "service_run ls calls = foldl service_step ls calls"

text \<open>Both entries present, or both absent.\<close>

definition paired :: "localStorage \<Rightarrow> bool" where
  "paired ls = ((ls ''token'' = None) = (ls ''user'' = None))"

text \<open>The \<open>token\<close> entry, if there is one, is not the empty string.\<close>

definition token_ok :: "localStorage \<Rightarrow> bool" where
  "token_ok ls = (ls ''token'' \<noteq> Some [])"

section \<open>frontend: context/AuthContext.tsx and components/routes/PrivateRoute.tsx\<close>

text \<open>
  The provider's two state cells, next to the local storage its methods reach through
  the service.
\<close>

record session =
  storage :: localStorage
  ctx_user :: json
  ctx_isAuthenticated :: bool

text \<open>
  The first render evaluates \<open>AuthService.getCurrentUser()\<close> and
  \<open>AuthService.isAuthenticated()\<close> as the initial state; an exception of the former
  ends the render.
\<close>

definition AuthProvider_init :: "browser \<Rightarrow> localStorage \<Rightarrow> exn + session" where
  "AuthProvider_init br ls =
     (case AuthService_getCurrentUser br ls of
        Inl error \<Rightarrow> Inl error
      | Inr u \<Rightarrow> Inr \<lparr> storage = ls, ctx_user = u,
                      ctx_isAuthenticated = AuthService_isAuthenticated ls \<rparr>)"

definition AuthProvider_login ::
  "browser \<Rightarrow> session \<Rightarrow> string \<Rightarrow> string \<Rightarrow> session \<times> (exn + unit)" where
  "AuthProvider_login br s email password =
     (case AuthService_login br (storage s) \<lparr> l_email = email, l_password = password \<rparr> of
        (ls', Inl error) \<Rightarrow> (s\<lparr>storage := ls'\<rparr>, Inl error)
      | (ls', Inr res) \<Rightarrow>
          (s\<lparr>storage := ls', ctx_user := data_user res, ctx_isAuthenticated := True\<rparr>,
           Inr ()))"

definition AuthProvider_register ::
  "browser \<Rightarrow> session \<Rightarrow> string \<Rightarrow> string \<Rightarrow> string \<Rightarrow> string \<Rightarrow> session \<times> (exn + unit)" where
  "AuthProvider_register br s firstName lastName email password =
     (case AuthService_register br (storage s)
             \<lparr> r_firstName = firstName, r_lastName = lastName,
               r_email = email, r_password = password \<rparr> of
        (ls', Inl error) \<Rightarrow> (s\<lparr>storage := ls'\<rparr>, Inl error)
      | (ls', Inr res) \<Rightarrow>
          (s\<lparr>storage := ls', ctx_user := data_user res, ctx_isAuthenticated := True\<rparr>,
           Inr ()))"

definition AuthProvider_logout :: "session \<Rightarrow> session" where
  "AuthProvider_logout s =
     s\<lparr>storage := AuthService_logout (storage s), ctx_user := JNull,
       ctx_isAuthenticated := False\<rparr>"

datatype view = Outlet | Navigate string

definition PrivateRoute :: "session \<Rightarrow> view" where
  "PrivateRoute s = (if ctx_isAuthenticated s then Outlet else Navigate ''/login'')"

section \<open>Concrete inputs\<close>

text \<open>
  A small instance of every dependency, on which the handlers can be run: a toy digest
  under an eleven-character salt, a token codec that knows two tokens, and the spans
  \<open>1d\<close> and \<open>1h\<close>.
\<close>

definition toy_digest :: "string \<Rightarrow> string \<Rightarrow> string" where
  "toy_digest s p = rev p"

definition toy_compare :: "string \<Rightarrow> string \<Rightarrow> bool" where
  "toy_compare p h = (h = take 11 h @ toy_digest (take 11 h) p)"

definition jane_token :: jwt where
  "jane_token = \<lparr> jwt_id = ''u1'', jwt_iat = 1000, jwt_exp = 87400, jwt_key = ''s3cret'' \<rparr>"

definition hour_token :: jwt where
  "hour_token = \<lparr> jwt_id = ''u1'', jwt_iat = 1000, jwt_exp = 4600, jwt_key = ''s3cret'' \<rparr>"

definition toy_encode :: "jwt \<Rightarrow> string" where
  "toy_encode t =
     (if t = jane_token then ''hdr.jane.sig''
      else if t = hour_token then ''hdr.hour.sig''
      else ''hdr.other.sig'')"

definition toy_decode :: "string \<Rightarrow> jwt option" where
  "toy_decode s =
     (if s = ''hdr.jane.sig'' then Some jane_token
      else if s = ''hdr.hour.sig'' then Some hour_token
      else None)"

definition toy_timespan :: "string \<Rightarrow> nat option" where
  "toy_timespan s =
     (if s = ''1d'' then Some 86400 else if s = ''1h'' then Some 3600 else None)"

definition toy_deps :: deps where
  "toy_deps = \<lparr> bcrypt_digest = toy_digest, bcrypt_compare = toy_compare,
                 jwt_encode = toy_encode, jwt_decode = toy_decode,
                 ms_timespan = toy_timespan \<rparr>"

definition prod_env :: env where
  "prod_env = \<lparr> JWT_SECRET = Some ''s3cret'', JWT_EXPIRES_IN = None,
                 NODE_ENV = Some ''production'' \<rparr>"

definition hour_env :: env where
  "hour_env = \<lparr> JWT_SECRET = Some ''s3cret'', JWT_EXPIRES_IN = Some ''1h'',
                 NODE_ENV = Some ''production'' \<rparr>"

definition jane :: user where
  "jane = \<lparr> u_id = ''u1'', u_firstName = Some ''Jane'', u_lastName = Some ''Doe'',
             u_email = ''jane@example.com'',
             u_password = ''$2a$10$abcd!654ssaPeruceS'',
             u_role = ''user'' \<rparr>"

definition empty_store :: store where
  "empty_store = \<lparr> users = [], connected = True \<rparr>"

definition jane_store :: store where
  "jane_store = \<lparr> users = [jane], connected = True \<rparr>"

definition jane_entropy :: entropy where
  "jane_entropy = \<lparr> oid = ''u1'', salt = ''$2a$10$abcd'' \<rparr>"

definition jane_body :: body where
  "jane_body = \<lparr> b_firstName = Some ''Jane'', b_lastName = Some ''Doe'',
                  b_email = Some ''jane@example.com'',
                  b_password = Some ''SecurePass456!'', b_role = None \<rparr>"

text \<open>
  For the client: a server that accepts one registration and one pair of credentials and
  rejects the rest, and a parser that knows the text \<open>null\<close>.
\<close>

definition jane_summary :: json where
  "jane_summary = JObj [(''_id'', JStr ''u1''), (''email'', JStr ''jane@example.com''),
                        (''role'', JStr ''user'')]"

definition jane_registration :: RegisterData where
  "jane_registration = \<lparr> r_firstName = ''Jane'', r_lastName = ''Doe'',
                          r_email = ''jane@example.com'', r_password = ''SecurePass456!'' \<rparr>"

definition toy_post :: "string \<Rightarrow> post_data \<Rightarrow> exn + AuthResponse" where
  "toy_post url d =
     (if d = LoginBody \<lparr> l_email = ''jane@example.com'', l_password = ''SecurePass456!'' \<rparr>
      then Inr \<lparr> token = ''hdr.jane.sig'', data_user = jane_summary \<rparr>
      else if d = RegisterBody jane_registration
      then Inr \<lparr> token = ''hdr.jane.sig'', data_user = jane_summary \<rparr>
      else Inl (Exn ''AxiosError'' ''Request failed with status code 401''))"

definition jane_credentials :: LoginData where
  "jane_credentials = \<lparr> l_email = ''jane@example.com'', l_password = ''SecurePass456!'' \<rparr>"

definition toy_stringify :: "json \<Rightarrow> string" where
  "toy_stringify j = (if j = JNull then ''null'' else ''{}'')"

definition toy_parse :: "string \<Rightarrow> exn + json" where
  "toy_parse s =
     (if s = ''null'' then Inr JNull
      else if s = ''{}'' then Inr (JObj [])
      else Inl (Exn ''SyntaxError'' ''Unexpected token''))"

definition toy_browser :: browser where
  "toy_browser = \<lparr> axios_post = toy_post, JSON_stringify = toy_stringify,
                    JSON_parse = toy_parse \<rparr>"

definition signed_out :: session where
  "signed_out = \<lparr> storage = Map.empty, ctx_user = JNull, ctx_isAuthenticated = False \<rparr>"

section \<open>Basic facts\<close>

lemma truthy_not_falsy: "truthy x = (\<not> falsy x)"
  by (simp add: truthy_def falsy_def)

lemma jane_passes_validation:
  "truthy (b_email jane_body) \<and> truthy (b_password jane_body)"
  by (simp add: truthy_def jane_body_def)

lemma wrong_password_passes_validation:
  "truthy (b_email (jane_body\<lparr>b_password := Some ''wrong''\<rparr>)) \<and>
   truthy (b_password (jane_body\<lparr>b_password := Some ''wrong''\<rparr>))"
  by (simp add: truthy_def jane_body_def)

lemma jane_not_in_empty_store:
  "User_findOne empty_store (value_of (b_email jane_body)) = Inr None"
  by (simp add: User_findOne_def empty_store_def)

lemma jane_in_jane_store:
  "User_findOne jane_store (value_of (b_email (jane_body\<lparr>b_password := pw\<rparr>))) = Inr (Some jane)"
  by (simp add: User_findOne_def jane_store_def jane_body_def jane_def)

lemma wrong_password_rejected:
  "\<not> comparePassword toy_deps jane (value_of (b_password (jane_body\<lparr>b_password := Some ''wrong''\<rparr>)))"
  by (simp add: comparePassword_def toy_deps_def toy_compare_def toy_digest_def jane_def)

lemma jane_registers:
  "register toy_deps prod_env 1000 jane_entropy empty_store jane_body =
     (jane_store,
      Responded
        \<lparr> code = 201,
          payload = JObj [(''status'', JStr ''success''),
                          (''token'', JStr ''hdr.jane.sig''),
                          (''data'', JObj [(''user'',
                             JObj [(''_id'', JStr ''u1''),
                                   (''firstName'', JStr ''Jane''),
                                   (''lastName'', JStr ''Doe''),
                                   (''email'', JStr ''jane@example.com''),
                                   (''role'', JStr ''user'')])])] \<rparr>)"
  by (simp add: register_def falsy_def truthy_def jane_body_def User_findOne_def
      empty_store_def User_create_def jane_entropy_def toy_deps_def generateToken_def
      bcrypt_hash_def toy_digest_def hour_token_def
      jwt_sign_def expiresIn_def prod_env_def toy_timespan_def toy_encode_def jane_token_def
      userResponse_def of_field_def jane_store_def jane_def Let_def)

lemma jane_token_issued:
  "generateToken toy_deps prod_env 1000 ''u1'' = Inr ''hdr.jane.sig''"
  by (simp add: generateToken_def jwt_sign_def falsy_def expiresIn_def truthy_def prod_env_def
      toy_deps_def toy_timespan_def toy_encode_def jane_token_def)

section \<open>Login does not tell an unknown email from a wrong password\<close>

text \<open>
  Claim C1. A login whose lookup finds no user for the email, and a login whose lookup
  finds the user but whose password comparison fails, are both answered with status 401
  and the message \<open>Incorrect email or password\<close>. Outside development mode the two
  answers are equal as a whole; in development mode the body also carries the stage and
  the stack of the error.
\<close>

theorem login_enumeration_resistance:
  assumes valid1: "truthy (b_email b1) \<and> truthy (b_password b1)"
      and valid2: "truthy (b_email b2) \<and> truthy (b_password b2)"
      and absent: "User_findOne st1 (value_of (b_email b1)) = Inr None"
      and found: "User_findOne st2 (value_of (b_email b2)) = Inr (Some u)"
      and mismatch: "\<not> comparePassword d u (value_of (b_password b2))"
  shows "code (post_login d ev t1 st1 b1) = 401 \<and>
         code (post_login d ev t2 st2 b2) = 401 \<and>
         field (payload (post_login d ev t1 st1 b1)) ''message'' =
           JStr ''Incorrect email or password'' \<and>
         field (payload (post_login d ev t2 st2 b2)) ''message'' =
           JStr ''Incorrect email or password'' \<and>
         (NODE_ENV ev \<noteq> Some ''development'' \<longrightarrow>
            post_login d ev t1 st1 b1 = post_login d ev t2 st2 b2)"
proof -
  have l1: "login d ev t1 st1 b1 =
      Next (create_unauthorized ''Incorrect email or password''
              (JObj [(''email'', of_field (b_email b1)), (''reason'', JStr ''User not found'')])
              ''userController.js:133'')"
    using valid1 absent by (simp add: login_def truthy_not_falsy)
  have l2: "login d ev t2 st2 b2 =
      Next (create_unauthorized ''Incorrect email or password''
              (JObj [(''email'', of_field (b_email b2)), (''reason'', JStr ''Password mismatch'')])
              ''userController.js:160'')"
    using valid2 found mismatch by (simp add: login_def truthy_not_falsy)
  show ?thesis
    by (simp add: post_login_def l1 l2 dispatch_def errorHandler_def create_unauthorized_def
        AppError_new_def field_def)
qed

theorem login_enumeration_resistance_witness:
  "code (post_login toy_deps prod_env 1000 empty_store jane_body) = 401 \<and>
   code (post_login toy_deps prod_env 2000 jane_store
           (jane_body\<lparr>b_password := Some ''wrong''\<rparr>)) = 401 \<and>
   post_login toy_deps prod_env 1000 empty_store jane_body =
     post_login toy_deps prod_env 2000 jane_store (jane_body\<lparr>b_password := Some ''wrong''\<rparr>)"
proof -
  have env: "NODE_ENV prod_env \<noteq> Some ''development''"
    by (simp add: prod_env_def)
  from login_enumeration_resistance [OF jane_passes_validation
      wrong_password_passes_validation jane_not_in_empty_store jane_in_jane_store
      wrong_password_rejected, of prod_env 1000 2000] env
  show ?thesis by simp
qed

section \<open>What registration writes\<close>

lemma register_success_iff:
  "(\<exists>res. snd (register d ev now r st b) = Responded res) \<longleftrightarrow>
     truthy (b_email b) \<and> truthy (b_password b) \<and>
     User_findOne st (value_of (b_email b)) = Inr None \<and>
     (\<exists>tok. generateToken d ev now (oid r) = Inr tok)"
  by (auto simp: register_def User_create_def User_findOne_def Let_def truthy_not_falsy
      split: if_splits sum.splits option.splits)

lemma register_store_fresh:
  assumes "truthy (b_email b) \<and> truthy (b_password b)"
      and "User_findOne st (value_of (b_email b)) = Inr None"
  shows "fst (register d ev now r st b) =
           st\<lparr>users := users st @
             [\<lparr> u_id = oid r, u_firstName = b_firstName b, u_lastName = b_lastName b,
                u_email = value_of (b_email b),
                u_password = bcrypt_hash d (salt r) (value_of (b_password b)),
                u_role = (if falsy (b_role b) then ''user'' else value_of (b_role b)) \<rparr>]\<rparr>"
  using assms
  by (auto simp: register_def User_create_def User_findOne_def Let_def truthy_not_falsy
      split: if_splits sum.splits option.splits)

lemma register_store_otherwise:
  assumes "\<not> (truthy (b_email b) \<and> truthy (b_password b) \<and>
              User_findOne st (value_of (b_email b)) = Inr None)"
  shows "fst (register d ev now r st b) = st"
  using assms
  by (auto simp: register_def User_create_def User_findOne_def Let_def truthy_not_falsy
      split: if_splits sum.splits option.splits)

lemma salted_hash_differs:
  assumes "\<not> startsWith p s"
  shows "bcrypt_hash d s p \<noteq> p"
proof
  assume "bcrypt_hash d s p = p"
  then have "p = s @ bcrypt_digest d s p"
    by (simp add: bcrypt_hash_def)
  then have "take (length s) p = s"
    by (metis append_eq_conv_conj)
  with assms show False
    by (simp add: startsWith_def)
qed

text \<open>
  Claim C2. A Register call succeeds exactly when validation passes, the lookup finds no
  record for the email and a token can be issued. Whenever validation passes and the
  lookup finds no record, the store gains exactly one record: its password field is the
  Password Hasher's output for the submitted password under the drawn salt, and its role
  is \<open>user\<close> when the request supplied none. In every other case the store is left as
  it was. A record that registration adds never holds the submitted password itself,
  unless that password happens to begin with the drawn salt.
\<close>

theorem register_persists_hash_and_default_role:
  "((\<exists>res. snd (register d ev now r st b) = Responded res) \<longleftrightarrow>
      truthy (b_email b) \<and> truthy (b_password b) \<and>
      User_findOne st (value_of (b_email b)) = Inr None \<and>
      (\<exists>tok. generateToken d ev now (oid r) = Inr tok)) \<and>
   (truthy (b_email b) \<and> truthy (b_password b) \<and>
    User_findOne st (value_of (b_email b)) = Inr None \<longrightarrow>
      fst (register d ev now r st b) =
        st\<lparr>users := users st @
          [\<lparr> u_id = oid r, u_firstName = b_firstName b, u_lastName = b_lastName b,
             u_email = value_of (b_email b),
             u_password = bcrypt_hash d (salt r) (value_of (b_password b)),
             u_role = (if falsy (b_role b) then ''user'' else value_of (b_role b)) \<rparr>]\<rparr>) \<and>
   (\<not> (truthy (b_email b) \<and> truthy (b_password b) \<and>
        User_findOne st (value_of (b_email b)) = Inr None) \<longrightarrow>
      fst (register d ev now r st b) = st) \<and>
   (\<forall>u. u \<in> set (users (fst (register d ev now r st b))) \<and> u \<notin> set (users st) \<and>
        \<not> startsWith (value_of (b_password b)) (salt r) \<longrightarrow>
        u_password u \<noteq> value_of (b_password b))"
proof (intro conjI allI impI)
  show "(\<exists>res. snd (register d ev now r st b) = Responded res) \<longleftrightarrow>
          truthy (b_email b) \<and> truthy (b_password b) \<and>
          User_findOne st (value_of (b_email b)) = Inr None \<and>
          (\<exists>tok. generateToken d ev now (oid r) = Inr tok)"
    by (rule register_success_iff)
  show "fst (register d ev now r st b) =
        st\<lparr>users := users st @
          [\<lparr> u_id = oid r, u_firstName = b_firstName b, u_lastName = b_lastName b,
             u_email = value_of (b_email b),
             u_password = bcrypt_hash d (salt r) (value_of (b_password b)),
             u_role = (if falsy (b_role b) then ''user'' else value_of (b_role b)) \<rparr>]\<rparr>"
    if "truthy (b_email b) \<and> truthy (b_password b) \<and>
        User_findOne st (value_of (b_email b)) = Inr None"
    using that by (simp add: register_store_fresh)
  show "fst (register d ev now r st b) = st"
    if "\<not> (truthy (b_email b) \<and> truthy (b_password b) \<and>
            User_findOne st (value_of (b_email b)) = Inr None)"
    using that by (rule register_store_otherwise)
  show "u_password u \<noteq> value_of (b_password b)"
    if added: "u \<in> set (users (fst (register d ev now r st b))) \<and> u \<notin> set (users st) \<and>
               \<not> startsWith (value_of (b_password b)) (salt r)" for u
  proof (cases "truthy (b_email b) \<and> truthy (b_password b) \<and>
                User_findOne st (value_of (b_email b)) = Inr None")
    case True
    then have "fst (register d ev now r st b) =
        st\<lparr>users := users st @
          [\<lparr> u_id = oid r, u_firstName = b_firstName b, u_lastName = b_lastName b,
             u_email = value_of (b_email b),
             u_password = bcrypt_hash d (salt r) (value_of (b_password b)),
             u_role = (if falsy (b_role b) then ''user'' else value_of (b_role b)) \<rparr>]\<rparr>"
      by (simp add: register_store_fresh)
    with added have "u_password u = bcrypt_hash d (salt r) (value_of (b_password b))"
      by auto
    moreover from added have "bcrypt_hash d (salt r) (value_of (b_password b)) \<noteq>
                              value_of (b_password b)"
      by (simp add: salted_hash_differs)
    ultimately show ?thesis by simp
  next
    case False
    then have "fst (register d ev now r st b) = st"
      by (rule register_store_otherwise)
    with added show ?thesis by auto
  qed
qed

theorem register_persists_hash_and_default_role_witness:
  "(\<exists>res. snd (register toy_deps prod_env 1000 jane_entropy empty_store jane_body) =
            Responded res) \<and>
   fst (register toy_deps prod_env 1000 jane_entropy empty_store jane_body) = jane_store \<and>
   u_password jane = ''$2a$10$abcd'' @ rev ''SecurePass456!'' \<and>
   u_password jane \<noteq> ''SecurePass456!'' \<and>
   u_role jane = ''user'' \<and>
   fst (register toy_deps prod_env 1000 jane_entropy jane_store jane_body) = jane_store"
proof -
  note facts = register_persists_hash_and_default_role
    [of toy_deps prod_env 1000 jane_entropy empty_store jane_body]
  note again = register_persists_hash_and_default_role
    [of toy_deps prod_env 1000 jane_entropy jane_store jane_body]
  have issued: "\<exists>tok. generateToken toy_deps prod_env 1000 (oid jane_entropy) = Inr tok"
    by (simp add: jane_entropy_def jane_token_issued)
  have taken: "\<not> (truthy (b_email jane_body) \<and> truthy (b_password jane_body) \<and>
                  User_findOne jane_store (value_of (b_email jane_body)) = Inr None)"
    by (simp add: User_findOne_def jane_store_def jane_body_def jane_def)
  from facts jane_passes_validation jane_not_in_empty_store issued
  have success: "\<exists>res. snd (register toy_deps prod_env 1000 jane_entropy empty_store jane_body) =
                        Responded res"
    by blast
  from facts jane_passes_validation jane_not_in_empty_store
  have "fst (register toy_deps prod_env 1000 jane_entropy empty_store jane_body) =
        empty_store\<lparr>users := users empty_store @
          [\<lparr> u_id = oid jane_entropy, u_firstName = b_firstName jane_body,
             u_lastName = b_lastName jane_body, u_email = value_of (b_email jane_body),
             u_password = bcrypt_hash toy_deps (salt jane_entropy)
                            (value_of (b_password jane_body)),
             u_role = (if falsy (b_role jane_body) then ''user''
                       else value_of (b_role jane_body)) \<rparr>]\<rparr>"
    by blast
  then have written:
    "fst (register toy_deps prod_env 1000 jane_entropy empty_store jane_body) = jane_store"
    by (simp add: empty_store_def jane_store_def jane_def jane_entropy_def jane_body_def
        bcrypt_hash_def toy_deps_def toy_digest_def falsy_def)
  have new: "jane \<in> set (users (fst (register toy_deps prod_env 1000 jane_entropy
                                       empty_store jane_body)))"
    by (simp add: written jane_store_def)
  have old: "jane \<notin> set (users empty_store)"
    by (simp add: empty_store_def)
  have unsalted: "\<not> startsWith (value_of (b_password jane_body)) (salt jane_entropy)"
    by (simp add: startsWith_def jane_body_def jane_entropy_def)
  from facts new old unsalted
  have "u_password jane \<noteq> value_of (b_password jane_body)"
    by blast
  then have differs: "u_password jane \<noteq> ''SecurePass456!''"
    by (simp add: jane_body_def)
  from again taken
  have kept: "fst (register toy_deps prod_env 1000 jane_entropy jane_store jane_body) =
              jane_store"
    by blast
  from success written differs kept show ?thesis
    by (simp add: jane_def)
qed

section \<open>Tokens: issue, then verify\<close>

text \<open>
  Claim C3. With a secret configured, a codec that reads back the token it wrote, and
  the configured expiry (\<open>JWT_EXPIRES_IN\<close>, or \<open>1d\<close> when that is unset or empty)
  standing for \<open>span\<close> seconds, \<open>generateToken\<close> issues for any user id the token that
  carries the id and the expiry \<open>now + span\<close>. Verifying it at any instant before that
  expiry yields the id, and from the expiry on verification fails. Every token whose
  expiry has passed fails verification, whatever the key. The span is that of the
  configured string when there is one, and that of \<open>1d\<close>, 86400 seconds, otherwise.
\<close>

theorem token_round_trip:
  assumes secret: "truthy (JWT_SECRET ev)"
      and span: "ms_timespan d (if truthy (JWT_EXPIRES_IN ev)
                                then value_of (JWT_EXPIRES_IN ev) else ''1d'') = Some span"
      and codec: "jwt_decode d (jwt_encode d
                    \<lparr> jwt_id = i, jwt_iat = now, jwt_exp = now + span,
                      jwt_key = value_of (JWT_SECRET ev) \<rparr>) =
                  Some \<lparr> jwt_id = i, jwt_iat = now, jwt_exp = now + span,
                         jwt_key = value_of (JWT_SECRET ev) \<rparr>"
  shows "generateToken d ev now i =
           Inr (jwt_encode d \<lparr> jwt_id = i, jwt_iat = now, jwt_exp = now + span,
                               jwt_key = value_of (JWT_SECRET ev) \<rparr>) \<and>
         (\<exists>tok. generateToken d ev now i = Inr tok \<and>
            (\<forall>t'. t' < now + span \<longrightarrow>
               (\<exists>t. jwt_verify d t' tok (JWT_SECRET ev) = Inr t \<and> jwt_id t = i)) \<and>
            (\<forall>t'. now + span \<le> t' \<longrightarrow> isl (jwt_verify d t' tok (JWT_SECRET ev)))) \<and>
         (\<forall>s t t' k. jwt_decode d s = Some t \<and> jwt_exp t \<le> t' \<longrightarrow>
            isl (jwt_verify d t' s k)) \<and>
         (falsy (JWT_EXPIRES_IN ev) \<and> ms_timespan d ''1d'' = Some 86400 \<longrightarrow> span = 86400) \<and>
         (\<forall>c. truthy (JWT_EXPIRES_IN ev) \<and>
               ms_timespan d (value_of (JWT_EXPIRES_IN ev)) = Some c \<longrightarrow> span = c)"
proof (intro conjI)
  let ?t = "\<lparr> jwt_id = i, jwt_iat = now, jwt_exp = now + span,
               jwt_key = value_of (JWT_SECRET ev) \<rparr>"
  show gen: "generateToken d ev now i = Inr (jwt_encode d ?t)"
    using secret span
    by (simp add: generateToken_def jwt_sign_def expiresIn_def truthy_not_falsy)
  have early: "jwt_verify d t' (jwt_encode d ?t) (JWT_SECRET ev) = Inr ?t"
    if "t' < now + span" for t'
    using that secret codec by (simp add: jwt_verify_def truthy_not_falsy)
  have late: "isl (jwt_verify d t' (jwt_encode d ?t) (JWT_SECRET ev))"
    if "now + span \<le> t'" for t'
    using that secret codec by (simp add: jwt_verify_def truthy_not_falsy)
  show "\<exists>tok. generateToken d ev now i = Inr tok \<and>
           (\<forall>t'. t' < now + span \<longrightarrow>
              (\<exists>t. jwt_verify d t' tok (JWT_SECRET ev) = Inr t \<and> jwt_id t = i)) \<and>
           (\<forall>t'. now + span \<le> t' \<longrightarrow> isl (jwt_verify d t' tok (JWT_SECRET ev)))"
    using gen early late by auto
  show "\<forall>s t t' k. jwt_decode d s = Some t \<and> jwt_exp t \<le> t' \<longrightarrow> isl (jwt_verify d t' s k)"
    by (simp add: jwt_verify_def)
  show "falsy (JWT_EXPIRES_IN ev) \<and> ms_timespan d ''1d'' = Some 86400 \<longrightarrow> span = 86400"
    using span by (auto simp: truthy_not_falsy)
  show "\<forall>c. truthy (JWT_EXPIRES_IN ev) \<and>
             ms_timespan d (value_of (JWT_EXPIRES_IN ev)) = Some c \<longrightarrow> span = c"
    using span by auto
qed

theorem token_round_trip_witness:
  "generateToken toy_deps hour_env 1000 ''u1'' = Inr ''hdr.hour.sig'' \<and>
   (\<exists>t. jwt_verify toy_deps 4599 ''hdr.hour.sig'' (JWT_SECRET hour_env) = Inr t \<and>
        jwt_id t = ''u1'') \<and>
   isl (jwt_verify toy_deps 4600 ''hdr.hour.sig'' (JWT_SECRET hour_env)) \<and>
   generateToken toy_deps prod_env 1000 ''u1'' = Inr ''hdr.jane.sig'' \<and>
   (\<exists>t. jwt_verify toy_deps 4600 ''hdr.jane.sig'' (JWT_SECRET prod_env) = Inr t \<and>
        jwt_id t = ''u1'') \<and>
   (\<exists>t. jwt_verify toy_deps 87399 ''hdr.jane.sig'' (JWT_SECRET prod_env) = Inr t \<and>
        jwt_id t = ''u1'') \<and>
   isl (jwt_verify toy_deps 87400 ''hdr.jane.sig'' (JWT_SECRET prod_env))"
proof -
  have secret_h: "truthy (JWT_SECRET hour_env)"
    by (simp add: truthy_def hour_env_def)
  have span_h: "ms_timespan toy_deps (if truthy (JWT_EXPIRES_IN hour_env)
                   then value_of (JWT_EXPIRES_IN hour_env) else ''1d'') = Some 3600"
    by (simp add: truthy_def hour_env_def toy_deps_def toy_timespan_def)
  have codec_h: "jwt_decode toy_deps (jwt_encode toy_deps
                 \<lparr> jwt_id = ''u1'', jwt_iat = 1000, jwt_exp = 1000 + 3600,
                   jwt_key = value_of (JWT_SECRET hour_env) \<rparr>) =
               Some \<lparr> jwt_id = ''u1'', jwt_iat = 1000, jwt_exp = 1000 + 3600,
                      jwt_key = value_of (JWT_SECRET hour_env) \<rparr>"
    by (simp add: toy_deps_def toy_encode_def toy_decode_def jane_token_def hour_token_def
        hour_env_def)
  have enc_h: "jwt_encode toy_deps
                 \<lparr> jwt_id = ''u1'', jwt_iat = 1000, jwt_exp = 1000 + 3600,
                   jwt_key = value_of (JWT_SECRET hour_env) \<rparr> = ''hdr.hour.sig''"
    by (simp add: toy_deps_def toy_encode_def jane_token_def hour_token_def hour_env_def)
  note hour = token_round_trip [OF secret_h span_h codec_h]
  have issued_h: "generateToken toy_deps hour_env 1000 ''u1'' = Inr ''hdr.hour.sig''"
    using hour [THEN conjunct1] unfolding enc_h .
  from hour obtain tok where
    tok: "generateToken toy_deps hour_env 1000 ''u1'' = Inr tok" and
    early: "\<forall>t'. t' < 1000 + 3600 \<longrightarrow>
              (\<exists>t. jwt_verify toy_deps t' tok (JWT_SECRET hour_env) = Inr t \<and> jwt_id t = ''u1'')" and
    late: "\<forall>t'. 1000 + 3600 \<le> t' \<longrightarrow> isl (jwt_verify toy_deps t' tok (JWT_SECRET hour_env))"
    by blast
  from tok issued_h have eq_h: "tok = ''hdr.hour.sig''"
    by simp
  have "(4599::nat) < 1000 + 3600" and "(1000::nat) + 3600 \<le> 4600"
    by simp_all
  with early late eq_h
  have h1: "\<exists>t. jwt_verify toy_deps 4599 ''hdr.hour.sig'' (JWT_SECRET hour_env) = Inr t \<and>
                jwt_id t = ''u1''"
    and h2: "isl (jwt_verify toy_deps 4600 ''hdr.hour.sig'' (JWT_SECRET hour_env))"
    by blast+
  have secret_d: "truthy (JWT_SECRET prod_env)"
    by (simp add: truthy_def prod_env_def)
  have span_d: "ms_timespan toy_deps (if truthy (JWT_EXPIRES_IN prod_env)
                   then value_of (JWT_EXPIRES_IN prod_env) else ''1d'') = Some 86400"
    by (simp add: truthy_def prod_env_def toy_deps_def toy_timespan_def)
  have codec_d: "jwt_decode toy_deps (jwt_encode toy_deps
                 \<lparr> jwt_id = ''u1'', jwt_iat = 1000, jwt_exp = 1000 + 86400,
                   jwt_key = value_of (JWT_SECRET prod_env) \<rparr>) =
               Some \<lparr> jwt_id = ''u1'', jwt_iat = 1000, jwt_exp = 1000 + 86400,
                      jwt_key = value_of (JWT_SECRET prod_env) \<rparr>"
    by (simp add: toy_deps_def toy_encode_def toy_decode_def jane_token_def prod_env_def)
  note day = token_round_trip [OF secret_d span_d codec_d]
  from day obtain tok' where
    tok': "generateToken toy_deps prod_env 1000 ''u1'' = Inr tok'" and
    early': "\<forall>t'. t' < 1000 + 86400 \<longrightarrow>
              (\<exists>t. jwt_verify toy_deps t' tok' (JWT_SECRET prod_env) = Inr t \<and> jwt_id t = ''u1'')" and
    late': "\<forall>t'. 1000 + 86400 \<le> t' \<longrightarrow> isl (jwt_verify toy_deps t' tok' (JWT_SECRET prod_env))"
    by blast
  from tok' have eq_d: "tok' = ''hdr.jane.sig''"
    by (simp add: jane_token_issued)
  have "(4600::nat) < 1000 + 86400" and "(87399::nat) < 1000 + 86400"
    and "(1000::nat) + 86400 \<le> 87400"
    by simp_all
  with early' late' eq_d
  have d1: "\<exists>t. jwt_verify toy_deps 4600 ''hdr.jane.sig'' (JWT_SECRET prod_env) = Inr t \<and>
                jwt_id t = ''u1''"
    and d2: "\<exists>t. jwt_verify toy_deps 87399 ''hdr.jane.sig'' (JWT_SECRET prod_env) = Inr t \<and>
                jwt_id t = ''u1''"
    and d3: "isl (jwt_verify toy_deps 87400 ''hdr.jane.sig'' (JWT_SECRET prod_env))"
    by blast+
  from issued_h h1 h2 jane_token_issued d1 d2 d3 show ?thesis
    by blast
qed

section \<open>Registering an email twice\<close>

lemma find_None_email: "find (\<lambda>u. u_email u = e) us = None \<Longrightarrow> e \<notin> set (map u_email us)"
  by (induction us) (auto split: if_splits)

lemma register_keeps_emails_distinct:
  assumes "distinct (map u_email (users st))"
  shows "distinct (map u_email (users (fst (register d ev now r st b))))"
  using assms
  by (auto simp: register_def User_create_def User_findOne_def Let_def
      dest: find_None_email split: if_splits sum.splits option.splits)

lemma existing_email_never_written:
  assumes "find (\<lambda>u. u_email u = value_of (b_email b)) (users st) = Some u"
  shows "fst (post_register d ev now r st b) = st"
  using assms
  by (auto simp: post_register_def register_def User_findOne_def split: if_splits prod.splits)

text \<open>
  Claim C4, as stated, fails: validation comes before the lookup, so a Register call
  whose email is on record but whose password is missing is answered 400, not 409.
\<close>

theorem register_duplicate_counterexample:
  "User_findOne jane_store ''jane@example.com'' = Inr (Some jane) \<and>
   b_email (jane_body\<lparr>b_password := None\<rparr>) = Some ''jane@example.com'' \<and>
   code (snd (post_register toy_deps prod_env 1000 jane_entropy jane_store
                (jane_body\<lparr>b_password := None\<rparr>))) = 400"
  by (simp add: User_findOne_def jane_store_def jane_def post_register_def register_def
      jane_body_def falsy_def dispatch_def errorHandler_def create_badRequest_def AppError_new_def)

text \<open>
  Claim C4, amended. A Register call that passes validation and whose lookup by email
  finds a record is answered 409 with the message \<open>User with this email already
  exists\<close>, and the store is left as it was. For any Register call at all, a store whose
  record for that email exists is left as it was, and emails that were pairwise distinct
  stay so.
\<close>

theorem register_duplicate_conflict:
  assumes valid: "truthy (b_email b) \<and> truthy (b_password b)"
      and found: "User_findOne st (value_of (b_email b)) = Inr (Some u)"
  shows "fst (post_register d ev now r st b) = st \<and>
         code (snd (post_register d ev now r st b)) = 409 \<and>
         field (payload (snd (post_register d ev now r st b))) ''message'' =
           JStr ''User with this email already exists'' \<and>
         (\<forall>b'. b_email b' = b_email b \<longrightarrow> fst (post_register d ev now r st b') = st) \<and>
         (\<forall>b'. distinct (map u_email (users st)) \<longrightarrow>
            distinct (map u_email (users (fst (register d ev now r st b')))))"
proof (intro conjI allI impI)
  show "fst (post_register d ev now r st b) = st"
    using valid found
    by (simp add: post_register_def register_def truthy_not_falsy)
  show "code (snd (post_register d ev now r st b)) = 409"
    using valid found
    by (simp add: post_register_def register_def truthy_not_falsy dispatch_def
        errorHandler_def create_conflict_def AppError_new_def)
  show "field (payload (snd (post_register d ev now r st b))) ''message'' =
          JStr ''User with this email already exists''"
    using valid found
    by (simp add: post_register_def register_def truthy_not_falsy dispatch_def
        errorHandler_def create_conflict_def AppError_new_def field_def)
  show "fst (post_register d ev now r st b') = st" if "b_email b' = b_email b" for b'
  proof -
    from found have "find (\<lambda>u. u_email u = value_of (b_email b')) (users st) = Some u"
      using that by (simp add: User_findOne_def split: if_splits)
    then show ?thesis by (rule existing_email_never_written)
  qed
  show "distinct (map u_email (users (fst (register d ev now r st b'))))"
    if "distinct (map u_email (users st))" for b'
    using that by (rule register_keeps_emails_distinct)
qed

theorem register_duplicate_conflict_witness:
  "fst (post_register toy_deps prod_env 2000 jane_entropy jane_store jane_body) = jane_store \<and>
   code (snd (post_register toy_deps prod_env 2000 jane_entropy jane_store jane_body)) = 409 \<and>
   fst (post_register toy_deps prod_env 2000 jane_entropy jane_store
          (jane_body\<lparr>b_password := None\<rparr>)) = jane_store"
proof -
  have found: "User_findOne jane_store (value_of (b_email jane_body)) = Inr (Some jane)"
    by (simp add: User_findOne_def jane_store_def jane_body_def jane_def)
  have same: "b_email (jane_body\<lparr>b_password := None\<rparr>) = b_email jane_body"
    by simp
  from register_duplicate_conflict [OF jane_passes_validation found,
      of toy_deps prod_env 2000 jane_entropy] same
  show ?thesis by blast
qed

section \<open>The protected route\<close>

lemma split_no_separator: "c \<notin> set s \<Longrightarrow> split c s = [s]"
  by (induction s) auto

lemma bearer_token_well_formed:
  assumes "CHR '' '' \<notin> set tok"
  shows "bearer_token \<lparr> authorization = Some (''Bearer '' @ tok) \<rparr> = Some tok"
  using assms
  by (simp add: bearer_token_def truthy_def startsWith_def at_index_def split_no_separator)

lemma bearer_token_other_scheme:
  assumes "\<not> startsWith h ''Bearer''"
  shows "bearer_token \<lparr> authorization = Some h \<rparr> = None"
  using assms by (simp add: bearer_token_def)

text \<open>
  Claim C5, as stated, fails: the middleware tests the header for the prefix \<open>Bearer\<close>,
  without the space. A header that is not prefixed \<open>Bearer \<close> can still yield a token,
  and the request is then let through.
\<close>

theorem protect_prefix_counterexample:
  "\<not> startsWith ''Bearerx hdr.jane.sig'' ''Bearer '' \<and>
   bearer_token \<lparr> authorization = Some ''Bearerx hdr.jane.sig'' \<rparr> = Some ''hdr.jane.sig'' \<and>
   protect toy_deps prod_env 2000 jane_store \<lparr> authorization = Some ''Bearerx hdr.jane.sig'' \<rparr> =
     Attached jane"
  by (simp add: startsWith_def bearer_token_def truthy_def at_index_def protect_def falsy_def
      jwt_verify_def toy_deps_def toy_decode_def prod_env_def jane_token_def User_findById_def
      jane_store_def jane_def)

text \<open>
  Claim C5, amended. The token is the second space-separated piece of the authorization
  header when the header starts with \<open>Bearer\<close>, and there is none otherwise; from
  \<open>Bearer \<close> followed by a token without spaces it is that token. With no token the
  answer is 401 \<open>Not authorized to access this route\<close>; when verification fails, or the
  lookup of the user throws, it is 401 \<open>Token is invalid or has expired\<close>; when the
  lookup finds nobody it is 401 \<open>User no longer exists\<close>; otherwise the user found is
  attached to the request.
\<close>

theorem protect_cases:
  "(falsy (bearer_token req) \<longrightarrow>
      protect d ev now st req =
        Rejected \<lparr> code = 401,
                   payload = JObj [(''status'', JStr ''error''),
                                   (''message'', JStr ''Not authorized to access this route'')] \<rparr>) \<and>
   (truthy (bearer_token req) \<and>
    jwt_verify d now (value_of (bearer_token req)) (JWT_SECRET ev) = Inl e \<longrightarrow>
      protect d ev now st req =
        Rejected \<lparr> code = 401,
                   payload = JObj [(''status'', JStr ''error''),
                                   (''message'', JStr ''Token is invalid or has expired'')] \<rparr>) \<and>
   (truthy (bearer_token req) \<and>
    jwt_verify d now (value_of (bearer_token req)) (JWT_SECRET ev) = Inr t \<and>
    User_findById st (jwt_id t) = Inl e \<longrightarrow>
      protect d ev now st req =
        Rejected \<lparr> code = 401,
                   payload = JObj [(''status'', JStr ''error''),
                                   (''message'', JStr ''Token is invalid or has expired'')] \<rparr>) \<and>
   (truthy (bearer_token req) \<and>
    jwt_verify d now (value_of (bearer_token req)) (JWT_SECRET ev) = Inr t \<and>
    User_findById st (jwt_id t) = Inr None \<longrightarrow>
      protect d ev now st req =
        Rejected \<lparr> code = 401,
                   payload = JObj [(''status'', JStr ''error''),
                                   (''message'', JStr ''User no longer exists'')] \<rparr>) \<and>
   (truthy (bearer_token req) \<and>
    jwt_verify d now (value_of (bearer_token req)) (JWT_SECRET ev) = Inr t \<and>
    User_findById st (jwt_id t) = Inr (Some u) \<longrightarrow>
      protect d ev now st req = Attached u) \<and>
   (falsy (authorization req) \<longrightarrow> bearer_token req = None) \<and>
   (\<not> startsWith h ''Bearer'' \<longrightarrow> bearer_token \<lparr> authorization = Some h \<rparr> = None) \<and>
   (startsWith h ''Bearer'' \<longrightarrow>
      bearer_token \<lparr> authorization = Some h \<rparr> = at_index (split CHR '' '' h) 1) \<and>
   (CHR '' '' \<notin> set tok \<longrightarrow>
      bearer_token \<lparr> authorization = Some (''Bearer '' @ tok) \<rparr> = Some tok)"
proof (intro conjI impI)
  show "bearer_token \<lparr> authorization = Some (''Bearer '' @ tok) \<rparr> = Some tok"
    if "CHR '' '' \<notin> set tok"
    using that by (rule bearer_token_well_formed)
  show "bearer_token \<lparr> authorization = Some h \<rparr> = None" if "\<not> startsWith h ''Bearer''"
    using that by (rule bearer_token_other_scheme)
  show "bearer_token \<lparr> authorization = Some h \<rparr> = at_index (split CHR '' '' h) 1"
    if "startsWith h ''Bearer''"
    using that by (auto simp: bearer_token_def truthy_def startsWith_def)
  show "bearer_token req = None" if "falsy (authorization req)"
    using that by (simp add: bearer_token_def truthy_not_falsy)
qed (simp_all add: protect_def unauthorized_json_def truthy_not_falsy)

lemma jane_header:
  "bearer_token \<lparr> authorization = Some ''Bearer hdr.jane.sig'' \<rparr> = Some ''hdr.jane.sig''"
  by (simp add: bearer_token_def truthy_def startsWith_def at_index_def)

lemma jane_token_verifies:
  "jwt_verify toy_deps 2000 ''hdr.jane.sig'' (JWT_SECRET prod_env) = Inr jane_token"
  by (simp add: jwt_verify_def toy_deps_def toy_decode_def falsy_def prod_env_def jane_token_def)

lemma jane_token_expires:
  "jwt_verify toy_deps 90000 ''hdr.jane.sig'' (JWT_SECRET prod_env) =
     Inl (Exn ''TokenExpiredError'' ''jwt expired'')"
  by (simp add: jwt_verify_def toy_deps_def toy_decode_def falsy_def prod_env_def jane_token_def)

theorem protect_cases_witness:
  "protect toy_deps prod_env 2000 jane_store \<lparr> authorization = None \<rparr> =
     Rejected \<lparr> code = 401,
                payload = JObj [(''status'', JStr ''error''),
                                (''message'', JStr ''Not authorized to access this route'')] \<rparr> \<and>
   protect toy_deps prod_env 90000 jane_store \<lparr> authorization = Some ''Bearer hdr.jane.sig'' \<rparr> =
     Rejected \<lparr> code = 401,
                payload = JObj [(''status'', JStr ''error''),
                                (''message'', JStr ''Token is invalid or has expired'')] \<rparr> \<and>
   protect toy_deps prod_env 2000 empty_store \<lparr> authorization = Some ''Bearer hdr.jane.sig'' \<rparr> =
     Rejected \<lparr> code = 401,
                payload = JObj [(''status'', JStr ''error''),
                                (''message'', JStr ''User no longer exists'')] \<rparr> \<and>
   protect toy_deps prod_env 2000 jane_store \<lparr> authorization = Some ''Bearer hdr.jane.sig'' \<rparr> =
     Attached jane"
proof -
  have none: "falsy (bearer_token \<lparr> authorization = None \<rparr>)"
    by (simp add: bearer_token_def truthy_def falsy_def)
  have some: "truthy (bearer_token \<lparr> authorization = Some ''Bearer hdr.jane.sig'' \<rparr>)"
    by (simp add: jane_header truthy_def)
  have gone: "User_findById empty_store (jwt_id jane_token) = Inr None"
    by (simp add: User_findById_def empty_store_def)
  have here: "User_findById jane_store (jwt_id jane_token) = Inr (Some jane)"
    by (simp add: User_findById_def jane_store_def jane_token_def jane_def)
  from protect_cases [of "\<lparr> authorization = None \<rparr>" toy_deps prod_env 2000 jane_store] none
  have c1: "protect toy_deps prod_env 2000 jane_store \<lparr> authorization = None \<rparr> =
     Rejected \<lparr> code = 401,
                payload = JObj [(''status'', JStr ''error''),
                                (''message'', JStr ''Not authorized to access this route'')] \<rparr>"
    by blast
  from protect_cases [of "\<lparr> authorization = Some ''Bearer hdr.jane.sig'' \<rparr>"
      toy_deps prod_env 90000 jane_store "Exn ''TokenExpiredError'' ''jwt expired''"]
    some jane_token_expires
  have c2: "protect toy_deps prod_env 90000 jane_store
              \<lparr> authorization = Some ''Bearer hdr.jane.sig'' \<rparr> =
     Rejected \<lparr> code = 401,
                payload = JObj [(''status'', JStr ''error''),
                                (''message'', JStr ''Token is invalid or has expired'')] \<rparr>"
    by (simp add: jane_header)
  from protect_cases [of "\<lparr> authorization = Some ''Bearer hdr.jane.sig'' \<rparr>"
      toy_deps prod_env 2000 empty_store _ jane_token]
    some jane_token_verifies gone
  have c3: "protect toy_deps prod_env 2000 empty_store
              \<lparr> authorization = Some ''Bearer hdr.jane.sig'' \<rparr> =
     Rejected \<lparr> code = 401,
                payload = JObj [(''status'', JStr ''error''),
                                (''message'', JStr ''User no longer exists'')] \<rparr>"
    by (simp add: jane_header)
  from protect_cases [of "\<lparr> authorization = Some ''Bearer hdr.jane.sig'' \<rparr>"
      toy_deps prod_env 2000 jane_store _ jane_token jane]
    some jane_token_verifies here
  have c4: "protect toy_deps prod_env 2000 jane_store
              \<lparr> authorization = Some ''Bearer hdr.jane.sig'' \<rparr> = Attached jane"
    by (simp add: jane_header)
  from c1 c2 c3 c4 show ?thesis by blast
qed

section \<open>The answer to a successful registration\<close>

lemma register_answer:
  assumes "truthy (b_email b) \<and> truthy (b_password b)"
      and "User_findOne st (value_of (b_email b)) = Inr None"
      and "generateToken d ev now (oid r) = Inr tok"
  shows "snd (register d ev now r st b) =
           Responded
             \<lparr> code = 201,
               payload =
                 JObj [(''status'', JStr ''success''),
                       (''token'', JStr tok),
                       (''data'', JObj [(''user'',
                          JObj ([(''_id'', JStr (oid r))] @
                                (case b_firstName b of None \<Rightarrow> []
                                 | Some f \<Rightarrow> [(''firstName'', JStr f)]) @
                                (case b_lastName b of None \<Rightarrow> []
                                 | Some l \<Rightarrow> [(''lastName'', JStr l)]) @
                                [(''email'', JStr (value_of (b_email b))),
                                 (''role'', JStr (if falsy (b_role b) then ''user''
                                                  else value_of (b_role b)))]))])] \<rparr>"
  using assms
  by (auto simp: register_def User_create_def User_findOne_def Let_def truthy_not_falsy
      userResponse_def of_field_def
      split: if_splits sum.splits option.splits)

lemma post_register_answer: "snd (post_register d ev now r st b) =
    dispatch ev ''initial'' (snd (register d ev now r st b))"
  by (simp add: post_register_def split: prod.splits)

text \<open>
  Claim C6, as stated, fails: a Register call that supplies no first and last name
  succeeds, and the user summary of the body sent has the keys \<open>_id\<close>, \<open>email\<close> and
  \<open>role\<close> only. The handler sets \<open>firstName\<close> and \<open>lastName\<close> to \<open>undefined\<close>, and
  \<open>res.json\<close> leaves such properties out.
\<close>

theorem register_without_names_counterexample:
  "code (snd (post_register toy_deps prod_env 1000 jane_entropy empty_store
                (jane_body\<lparr>b_firstName := None, b_lastName := None\<rparr>))) = 201 \<and>
   keys (field (field (payload (snd (post_register toy_deps prod_env 1000 jane_entropy
                                       empty_store
                                       (jane_body\<lparr>b_firstName := None, b_lastName := None\<rparr>))))
                  ''data'') ''user'') =
     [''_id'', ''email'', ''role'']"
  by (simp add: post_register_def dispatch_def register_def falsy_def truthy_def jane_body_def
      User_findOne_def empty_store_def User_create_def jane_entropy_def toy_deps_def
      generateToken_def jwt_sign_def expiresIn_def prod_env_def toy_timespan_def toy_encode_def
      jane_token_def hour_token_def userResponse_def of_field_def Let_def bcrypt_hash_def
      toy_digest_def keys_def field_def)

text \<open>
  Claim C6, amended. A Register call succeeds exactly when validation passes, the lookup
  finds no record for the email and a token can be issued; the HTTP response then has
  status 201 and the body \<open>{status: "success", token, data: {user}}\<close>, the token being
  the one issued for the new identifier. The user summary carries \<open>_id\<close>, then
  \<open>firstName\<close> and \<open>lastName\<close> for each of the two the request supplied, then \<open>email\<close>
  and \<open>role\<close>: all five keys when both names were supplied. It never has a \<open>password\<close>
  key, and the response is the same whatever the Password Hasher computes.
\<close>

theorem register_success_response:
  "((\<exists>res. snd (register d ev now r st b) = Responded res) \<longleftrightarrow>
      truthy (b_email b) \<and> truthy (b_password b) \<and>
      User_findOne st (value_of (b_email b)) = Inr None \<and>
      (\<exists>tok. generateToken d ev now (oid r) = Inr tok)) \<and>
   (truthy (b_email b) \<and> truthy (b_password b) \<and>
    User_findOne st (value_of (b_email b)) = Inr None \<and>
    generateToken d ev now (oid r) = Inr tok \<longrightarrow>
      snd (post_register d ev now r st b) =
        \<lparr> code = 201,
          payload =
            JObj [(''status'', JStr ''success''),
                  (''token'', JStr tok),
                  (''data'', JObj [(''user'',
                     JObj ([(''_id'', JStr (oid r))] @
                           (case b_firstName b of None \<Rightarrow> []
                            | Some f \<Rightarrow> [(''firstName'', JStr f)]) @
                           (case b_lastName b of None \<Rightarrow> []
                            | Some l \<Rightarrow> [(''lastName'', JStr l)]) @
                           [(''email'', JStr (value_of (b_email b))),
                            (''role'', JStr (if falsy (b_role b) then ''user''
                                             else value_of (b_role b)))]))])] \<rparr>) \<and>
   (snd (register d ev now r st b) = Responded res \<longrightarrow>
      snd (post_register d ev now r st b) = res \<and>
      code res = 201 \<and>
      ''password'' \<notin> set (keys (field (field (payload res) ''data'') ''user'')) \<and>
      (b_firstName b \<noteq> None \<and> b_lastName b \<noteq> None \<longrightarrow>
         keys (field (field (payload res) ''data'') ''user'') =
           [''_id'', ''firstName'', ''lastName'', ''email'', ''role'']) \<and>
      (\<forall>g. snd (register (d\<lparr>bcrypt_digest := g\<rparr>) ev now r st b) = Responded res))"
proof (intro conjI impI)
  show "(\<exists>res. snd (register d ev now r st b) = Responded res) \<longleftrightarrow>
          truthy (b_email b) \<and> truthy (b_password b) \<and>
          User_findOne st (value_of (b_email b)) = Inr None \<and>
          (\<exists>tok. generateToken d ev now (oid r) = Inr tok)"
    by (rule register_success_iff)
  show "snd (post_register d ev now r st b) =
        \<lparr> code = 201,
          payload =
            JObj [(''status'', JStr ''success''),
                  (''token'', JStr tok),
                  (''data'', JObj [(''user'',
                     JObj ([(''_id'', JStr (oid r))] @
                           (case b_firstName b of None \<Rightarrow> []
                            | Some f \<Rightarrow> [(''firstName'', JStr f)]) @
                           (case b_lastName b of None \<Rightarrow> []
                            | Some l \<Rightarrow> [(''lastName'', JStr l)]) @
                           [(''email'', JStr (value_of (b_email b))),
                            (''role'', JStr (if falsy (b_role b) then ''user''
                                             else value_of (b_role b)))]))])] \<rparr>"
    if "truthy (b_email b) \<and> truthy (b_password b) \<and>
        User_findOne st (value_of (b_email b)) = Inr None \<and>
        generateToken d ev now (oid r) = Inr tok"
    using that by (simp add: post_register_answer register_answer dispatch_def)
next
  assume ok: "snd (register d ev now r st b) = Responded res"
  then have "\<exists>res. snd (register d ev now r st b) = Responded res"
    by blast
  then have pre: "truthy (b_email b) \<and> truthy (b_password b)"
    and fresh: "User_findOne st (value_of (b_email b)) = Inr None"
    and "\<exists>tok. generateToken d ev now (oid r) = Inr tok"
    by (simp_all add: register_success_iff)
  then obtain tok' where tok': "generateToken d ev now (oid r) = Inr tok'"
    by blast
  note shape = register_answer [OF pre fresh tok']
  from ok shape have res: "res =
             \<lparr> code = 201,
               payload =
                 JObj [(''status'', JStr ''success''),
                       (''token'', JStr tok'),
                       (''data'', JObj [(''user'',
                          JObj ([(''_id'', JStr (oid r))] @
                                (case b_firstName b of None \<Rightarrow> []
                                 | Some f \<Rightarrow> [(''firstName'', JStr f)]) @
                                (case b_lastName b of None \<Rightarrow> []
                                 | Some l \<Rightarrow> [(''lastName'', JStr l)]) @
                                [(''email'', JStr (value_of (b_email b))),
                                 (''role'', JStr (if falsy (b_role b) then ''user''
                                                  else value_of (b_role b)))]))])] \<rparr>"
    by simp
  show "snd (post_register d ev now r st b) = res"
    using ok by (simp add: post_register_answer dispatch_def)
  show "code res = 201"
    by (simp add: res)
  show "''password'' \<notin> set (keys (field (field (payload res) ''data'') ''user''))"
    by (auto simp: res keys_def field_def split: option.splits)
  show "keys (field (field (payload res) ''data'') ''user'') =
          [''_id'', ''firstName'', ''lastName'', ''email'', ''role'']"
    if "b_firstName b \<noteq> None \<and> b_lastName b \<noteq> None"
    using that by (auto simp: res keys_def field_def)
  show "\<forall>g. snd (register (d\<lparr>bcrypt_digest := g\<rparr>) ev now r st b) = Responded res"
  proof
    fix g
    have "generateToken (d\<lparr>bcrypt_digest := g\<rparr>) ev now (oid r) =
          generateToken d ev now (oid r)"
      by (simp add: generateToken_def jwt_sign_def split: option.splits)
    with tok' have tok_g: "generateToken (d\<lparr>bcrypt_digest := g\<rparr>) ev now (oid r) = Inr tok'"
      by simp
    from register_answer [OF pre fresh tok_g] res
    show "snd (register (d\<lparr>bcrypt_digest := g\<rparr>) ev now r st b) = Responded res"
      by simp
  qed
qed

theorem register_success_response_witness:
  "snd (post_register toy_deps prod_env 1000 jane_entropy empty_store jane_body) =
     \<lparr> code = 201,
       payload =
         JObj [(''status'', JStr ''success''),
               (''token'', JStr ''hdr.jane.sig''),
               (''data'', JObj [(''user'',
                  JObj [(''_id'', JStr ''u1''),
                        (''firstName'', JStr ''Jane''),
                        (''lastName'', JStr ''Doe''),
                        (''email'', JStr ''jane@example.com''),
                        (''role'', JStr ''user'')])])] \<rparr> \<and>
   keys (field (field (payload (snd (post_register toy_deps prod_env 1000 jane_entropy
                                       empty_store jane_body))) ''data'') ''user'') =
     [''_id'', ''firstName'', ''lastName'', ''email'', ''role'']"
proof -
  have issued: "generateToken toy_deps prod_env 1000 (oid jane_entropy) = Inr ''hdr.jane.sig''"
    by (simp add: jane_entropy_def jane_token_issued)
  note facts = register_success_response
    [where d = toy_deps and ev = prod_env and now = 1000 and r = jane_entropy
       and st = empty_store and b = jane_body and tok = "''hdr.jane.sig''"]
  from facts jane_passes_validation jane_not_in_empty_store issued
  have "snd (post_register toy_deps prod_env 1000 jane_entropy empty_store jane_body) =
        \<lparr> code = 201,
          payload =
            JObj [(''status'', JStr ''success''),
                  (''token'', JStr ''hdr.jane.sig''),
                  (''data'', JObj [(''user'',
                     JObj ([(''_id'', JStr (oid jane_entropy))] @
                           (case b_firstName jane_body of None \<Rightarrow> []
                            | Some f \<Rightarrow> [(''firstName'', JStr f)]) @
                           (case b_lastName jane_body of None \<Rightarrow> []
                            | Some l \<Rightarrow> [(''lastName'', JStr l)]) @
                           [(''email'', JStr (value_of (b_email jane_body))),
                            (''role'', JStr (if falsy (b_role jane_body) then ''user''
                                             else value_of (b_role jane_body)))]))])] \<rparr>"
    by blast
  then show ?thesis
    by (simp add: jane_entropy_def jane_body_def falsy_def keys_def field_def)
qed

section \<open>Missing credentials\<close>

text \<open>
  Validation comes first in both handlers: with the email or the password missing or
  empty the answer is 400, whatever the store holds and whether or not it can be reached,
  and the store is handed back untouched.
\<close>

lemma missing_credentials_bad_request:
  assumes "falsy (b_email b) \<or> falsy (b_password b)"
  shows "post_register d ev now r st b =
           (st, errorHandler ev ''initial''
                  (create_badRequest ''Please provide email and password''
                     (JObj [(''missingFields'', missingFields b)]) ''userController.js:20''))"
    and "code (snd (post_register d ev now r st b)) = 400"
    and "post_login d ev now st b =
           errorHandler ev ''login-route''
             (create_badRequest ''Please provide email and password''
                (JObj [(''missingFields'', missingFields b)]) ''userController.js:106'')"
    and "code (post_login d ev now st b) = 400"
  using assms
  by (auto simp: post_register_def register_def post_login_def login_def dispatch_def
      errorHandler_def create_badRequest_def AppError_new_def)

lemma missingFields_one_missing:
  "falsy (b_email b) \<Longrightarrow> \<not> falsy (b_password b) \<Longrightarrow> missingFields b = JArr [JStr ''email'']"
  "\<not> falsy (b_email b) \<Longrightarrow> falsy (b_password b) \<Longrightarrow> missingFields b = JArr [JStr ''password'']"
  by (simp_all add: missingFields_def)

text \<open>
  Claim C7. The claim asks that a Register call with neither email nor password name both
  fields. The handler's \<open>missingFields\<close> stops at the first one: the failure it raises
  for such a call names \<open>email\<close> only.
\<close>

theorem register_names_one_missing_field:
  "register toy_deps prod_env 1000 jane_entropy empty_store
     (jane_body\<lparr>b_email := None, b_password := None\<rparr>) =
     (empty_store,
      Next \<lparr> message = ''Please provide email and password'', statusCode = 400,
             status = ''fail'', isOperational = True, errorCode = Some ''BAD_REQUEST'',
             details = JObj [(''missingFields'', JArr [JStr ''email''])],
             stack = ''userController.js:20'' \<rparr>)"
  by (simp add: register_def falsy_def jane_body_def create_badRequest_def AppError_new_def
      missingFields_def leading_digit.simps)

section \<open>The client's two stored entries\<close>

lemma paired_store_credentials: "paired ls \<Longrightarrow> paired (store_credentials br ls res)"
  by (simp add: paired_def store_credentials_def)

lemma paired_logout: "paired (AuthService_logout ls)"
  by (simp add: paired_def AuthService_logout_def)

lemma paired_step: "paired ls \<Longrightarrow> paired (service_step ls c)"
  by (cases c)
     (auto simp: AuthService_register_def AuthService_login_def paired_store_credentials
        paired_logout split: sum.splits)

lemma paired_run: "paired ls \<Longrightarrow> paired (service_run ls calls)"
  unfolding service_run_def
  by (induction calls arbitrary: ls) (simp_all add: paired_step)

lemma jane_signs_up:
  "axios_post toy_browser ''/api/auth/register'' (RegisterBody jane_registration) =
     Inr \<lparr> token = ''hdr.jane.sig'', data_user = jane_summary \<rparr>"
  by (simp add: toy_browser_def toy_post_def)

lemma jane_signs_in:
  "axios_post toy_browser ''/api/auth/login'' (LoginBody jane_credentials) =
     Inr \<lparr> token = ''hdr.jane.sig'', data_user = jane_summary \<rparr>"
  by (simp add: toy_browser_def toy_post_def jane_credentials_def)

lemma stranger_turned_away:
  "axios_post toy_browser ''/api/auth/register''
     (RegisterBody (jane_registration\<lparr>r_email := ''joe@example.com''\<rparr>)) =
   Inl (Exn ''AxiosError'' ''Request failed with status code 401'')"
  by (simp add: toy_browser_def toy_post_def jane_registration_def)

text \<open>
  Claim C8. When the request of a register or of a login succeeds with a token, the
  service sets both entries, \<open>token\<close> to the token and \<open>user\<close> to the serialised user,
  and touches nothing else; when the request fails, or succeeds without a token, the
  storage is what it was. Logout removes both entries and keeps the rest. Hence each
  operation keeps a storage in which the two entries are both present or both absent in
  that condition, and after any sequence of AuthService calls on an empty storage they
  are present together or absent together.
\<close>

theorem entries_set_and_cleared_together:
  "(axios_post br ''/api/auth/register'' (RegisterBody userData) = Inr res \<and> token res \<noteq> [] \<longrightarrow>
      AuthService_register br ls userData =
        (ls(''token'' \<mapsto> token res, ''user'' \<mapsto> JSON_stringify br (data_user res)), Inr res)) \<and>
   (axios_post br ''/api/auth/login'' (LoginBody credentials) = Inr res \<and> token res \<noteq> [] \<longrightarrow>
      AuthService_login br ls credentials =
        (ls(''token'' \<mapsto> token res, ''user'' \<mapsto> JSON_stringify br (data_user res)), Inr res)) \<and>
   (axios_post br ''/api/auth/register'' (RegisterBody userData) = Inr res \<and> token res = [] \<longrightarrow>
      AuthService_register br ls userData = (ls, Inr res)) \<and>
   (axios_post br ''/api/auth/login'' (LoginBody credentials) = Inr res \<and> token res = [] \<longrightarrow>
      AuthService_login br ls credentials = (ls, Inr res)) \<and>
   (axios_post br ''/api/auth/register'' (RegisterBody userData) = Inl e \<longrightarrow>
      AuthService_register br ls userData = (ls, Inl e)) \<and>
   (axios_post br ''/api/auth/login'' (LoginBody credentials) = Inl e \<longrightarrow>
      AuthService_login br ls credentials = (ls, Inl e)) \<and>
   AuthService_logout ls ''token'' = None \<and>
   AuthService_logout ls ''user'' = None \<and>
   (\<forall>k. k \<noteq> ''token'' \<and> k \<noteq> ''user'' \<longrightarrow> AuthService_logout ls k = ls k) \<and>
   (paired ls \<longrightarrow>
      paired (fst (AuthService_register br ls userData)) \<and>
      paired (fst (AuthService_login br ls credentials))) \<and>
   paired (service_run Map.empty calls)"
proof (intro conjI impI allI)
  show "AuthService_register br ls userData =
        (ls(''token'' \<mapsto> token res, ''user'' \<mapsto> JSON_stringify br (data_user res)), Inr res)"
    if "axios_post br ''/api/auth/register'' (RegisterBody userData) = Inr res \<and> token res \<noteq> []"
    using that by (simp add: AuthService_register_def store_credentials_def)
  show "AuthService_login br ls credentials =
        (ls(''token'' \<mapsto> token res, ''user'' \<mapsto> JSON_stringify br (data_user res)), Inr res)"
    if "axios_post br ''/api/auth/login'' (LoginBody credentials) = Inr res \<and> token res \<noteq> []"
    using that by (simp add: AuthService_login_def store_credentials_def)
  show "AuthService_register br ls userData = (ls, Inr res)"
    if "axios_post br ''/api/auth/register'' (RegisterBody userData) = Inr res \<and> token res = []"
    using that by (simp add: AuthService_register_def store_credentials_def)
  show "AuthService_login br ls credentials = (ls, Inr res)"
    if "axios_post br ''/api/auth/login'' (LoginBody credentials) = Inr res \<and> token res = []"
    using that by (simp add: AuthService_login_def store_credentials_def)
  show "AuthService_register br ls userData = (ls, Inl e)"
    if "axios_post br ''/api/auth/register'' (RegisterBody userData) = Inl e"
    using that by (simp add: AuthService_register_def)
  show "AuthService_login br ls credentials = (ls, Inl e)"
    if "axios_post br ''/api/auth/login'' (LoginBody credentials) = Inl e"
    using that by (simp add: AuthService_login_def)
  show "AuthService_logout ls ''token'' = None"
    by (simp add: AuthService_logout_def)
  show "AuthService_logout ls ''user'' = None"
    by (simp add: AuthService_logout_def)
  show "AuthService_logout ls k = ls k" if "k \<noteq> ''token'' \<and> k \<noteq> ''user''" for k
    using that by (simp add: AuthService_logout_def)
  show "paired (fst (AuthService_register br ls userData))" if "paired ls"
    using paired_step [OF that, of "CallRegister br userData"] by simp
  show "paired (fst (AuthService_login br ls credentials))" if "paired ls"
    using paired_step [OF that, of "CallLogin br credentials"] by simp
  show "paired (service_run Map.empty calls)"
    by (rule paired_run) (simp add: paired_def)
qed

theorem entries_set_and_cleared_together_witness:
  "AuthService_register toy_browser Map.empty jane_registration =
     ([''token'' \<mapsto> ''hdr.jane.sig'', ''user'' \<mapsto> ''{}''],
      Inr \<lparr> token = ''hdr.jane.sig'', data_user = jane_summary \<rparr>) \<and>
   AuthService_login toy_browser Map.empty jane_credentials =
     ([''token'' \<mapsto> ''hdr.jane.sig'', ''user'' \<mapsto> ''{}''],
      Inr \<lparr> token = ''hdr.jane.sig'', data_user = jane_summary \<rparr>) \<and>
   AuthService_register toy_browser [''theme'' \<mapsto> ''dark'']
       (jane_registration\<lparr>r_email := ''joe@example.com''\<rparr>) =
     ([''theme'' \<mapsto> ''dark''],
      Inl (Exn ''AxiosError'' ''Request failed with status code 401'')) \<and>
   AuthService_logout [''token'' \<mapsto> ''hdr.jane.sig'', ''user'' \<mapsto> ''{}''] ''token'' = None \<and>
   AuthService_logout [''token'' \<mapsto> ''hdr.jane.sig'', ''user'' \<mapsto> ''{}''] ''user'' = None \<and>
   paired (fst (AuthService_register toy_browser Map.empty jane_registration))"
proof -
  have tok: "token \<lparr> token = ''hdr.jane.sig'', data_user = jane_summary \<rparr> \<noteq> []"
    by simp
  have start: "paired Map.empty"
    by (simp add: paired_def)
  note fresh = entries_set_and_cleared_together
    [where br = toy_browser and ls = Map.empty and userData = jane_registration
       and credentials = jane_credentials
       and res = "\<lparr> token = ''hdr.jane.sig'', data_user = jane_summary \<rparr>"]
  from fresh jane_signs_up tok
  have "AuthService_register toy_browser Map.empty jane_registration =
     (Map.empty(''token'' \<mapsto> token \<lparr> token = ''hdr.jane.sig'', data_user = jane_summary \<rparr>,
                ''user'' \<mapsto> JSON_stringify toy_browser
                   (data_user \<lparr> token = ''hdr.jane.sig'', data_user = jane_summary \<rparr>)),
      Inr \<lparr> token = ''hdr.jane.sig'', data_user = jane_summary \<rparr>)"
    by blast
  then have signed_up: "AuthService_register toy_browser Map.empty jane_registration =
     ([''token'' \<mapsto> ''hdr.jane.sig'', ''user'' \<mapsto> ''{}''],
      Inr \<lparr> token = ''hdr.jane.sig'', data_user = jane_summary \<rparr>)"
    by (simp add: toy_browser_def toy_stringify_def jane_summary_def)
  from fresh jane_signs_in tok
  have "AuthService_login toy_browser Map.empty jane_credentials =
     (Map.empty(''token'' \<mapsto> token \<lparr> token = ''hdr.jane.sig'', data_user = jane_summary \<rparr>,
                ''user'' \<mapsto> JSON_stringify toy_browser
                   (data_user \<lparr> token = ''hdr.jane.sig'', data_user = jane_summary \<rparr>)),
      Inr \<lparr> token = ''hdr.jane.sig'', data_user = jane_summary \<rparr>)"
    by blast
  then have signed_in: "AuthService_login toy_browser Map.empty jane_credentials =
     ([''token'' \<mapsto> ''hdr.jane.sig'', ''user'' \<mapsto> ''{}''],
      Inr \<lparr> token = ''hdr.jane.sig'', data_user = jane_summary \<rparr>)"
    by (simp add: toy_browser_def toy_stringify_def jane_summary_def)
  from fresh start
  have kept: "paired (fst (AuthService_register toy_browser Map.empty jane_registration))"
    by blast
  from entries_set_and_cleared_together
    [where br = toy_browser and ls = "[''theme'' \<mapsto> ''dark'']"
       and userData = "jane_registration\<lparr>r_email := ''joe@example.com''\<rparr>"
       and e = "Exn ''AxiosError'' ''Request failed with status code 401''"]
    stranger_turned_away
  have refused: "AuthService_register toy_browser [''theme'' \<mapsto> ''dark'']
       (jane_registration\<lparr>r_email := ''joe@example.com''\<rparr>) =
     ([''theme'' \<mapsto> ''dark''],
      Inl (Exn ''AxiosError'' ''Request failed with status code 401''))"
    by blast
  from entries_set_and_cleared_together
    [where ls = "[''token'' \<mapsto> ''hdr.jane.sig'', ''user'' \<mapsto> ''{}'']"]
  have out: "AuthService_logout [''token'' \<mapsto> ''hdr.jane.sig'', ''user'' \<mapsto> ''{}''] ''token'' = None \<and>
             AuthService_logout [''token'' \<mapsto> ''hdr.jane.sig'', ''user'' \<mapsto> ''{}''] ''user'' = None"
    by blast
  from signed_up signed_in refused out kept show ?thesis
    by blast
qed

section \<open>The provider's login and register\<close>

text \<open>
  Claim C9. When the request of a login or a register fails, the provider's state (the
  current user, the authenticated flag, the stored entries) is what it was, and the caller
  gets the very error. The state changes only when the request succeeds; then the user is
  the one of the response, the flag is true, and the stored entries are those the service
  writes: the response's token and serialised user when it carries a token.
\<close>

theorem failed_call_leaves_session:
  "(axios_post br ''/api/auth/login''
      (LoginBody \<lparr> l_email = email, l_password = password \<rparr>) = Inl e \<longrightarrow>
      AuthProvider_login br s email password = (s, Inl e)) \<and>
   (axios_post br ''/api/auth/register''
      (RegisterBody \<lparr> r_firstName = firstName, r_lastName = lastName,
                      r_email = email, r_password = password \<rparr>) = Inl e \<longrightarrow>
      AuthProvider_register br s firstName lastName email password = (s, Inl e)) \<and>
   (AuthProvider_login br s email password = (s', out) \<and> s' \<noteq> s \<longrightarrow>
      (\<exists>res. axios_post br ''/api/auth/login''
                (LoginBody \<lparr> l_email = email, l_password = password \<rparr>) = Inr res \<and>
             out = Inr () \<and> ctx_isAuthenticated s' \<and> ctx_user s' = data_user res \<and>
             storage s' = store_credentials br (storage s) res)) \<and>
   (AuthProvider_register br s firstName lastName email password = (s', out) \<and> s' \<noteq> s \<longrightarrow>
      (\<exists>res. axios_post br ''/api/auth/register''
                (RegisterBody \<lparr> r_firstName = firstName, r_lastName = lastName,
                                r_email = email, r_password = password \<rparr>) = Inr res \<and>
             out = Inr () \<and> ctx_isAuthenticated s' \<and> ctx_user s' = data_user res \<and>
             storage s' = store_credentials br (storage s) res)) \<and>
   (axios_post br ''/api/auth/login''
      (LoginBody \<lparr> l_email = email, l_password = password \<rparr>) = Inr res \<longrightarrow>
      AuthProvider_login br s email password =
        (\<lparr> storage = store_credentials br (storage s) res,
           ctx_user = data_user res, ctx_isAuthenticated = True \<rparr>, Inr ())) \<and>
   (axios_post br ''/api/auth/register''
      (RegisterBody \<lparr> r_firstName = firstName, r_lastName = lastName,
                      r_email = email, r_password = password \<rparr>) = Inr res \<longrightarrow>
      AuthProvider_register br s firstName lastName email password =
        (\<lparr> storage = store_credentials br (storage s) res,
           ctx_user = data_user res, ctx_isAuthenticated = True \<rparr>, Inr ())) \<and>
   (token res \<noteq> [] \<longrightarrow>
      store_credentials br (storage s) res =
        (storage s)(''token'' \<mapsto> token res,
                    ''user'' \<mapsto> JSON_stringify br (data_user res)))"
proof (intro conjI impI)
  show "AuthProvider_login br s email password = (s, Inl e)"
    if "axios_post br ''/api/auth/login''
          (LoginBody \<lparr> l_email = email, l_password = password \<rparr>) = Inl e"
    using that by (simp add: AuthProvider_login_def AuthService_login_def)
  show "AuthProvider_register br s firstName lastName email password = (s, Inl e)"
    if "axios_post br ''/api/auth/register''
          (RegisterBody \<lparr> r_firstName = firstName, r_lastName = lastName,
                          r_email = email, r_password = password \<rparr>) = Inl e"
    using that by (simp add: AuthProvider_register_def AuthService_register_def)
  show "\<exists>res. axios_post br ''/api/auth/login''
                (LoginBody \<lparr> l_email = email, l_password = password \<rparr>) = Inr res \<and>
             out = Inr () \<and> ctx_isAuthenticated s' \<and> ctx_user s' = data_user res \<and>
             storage s' = store_credentials br (storage s) res"
    if "AuthProvider_login br s email password = (s', out) \<and> s' \<noteq> s"
  proof (cases "axios_post br ''/api/auth/login''
                  (LoginBody \<lparr> l_email = email, l_password = password \<rparr>)")
    case (Inl err)
    with that show ?thesis
      by (auto simp: AuthProvider_login_def AuthService_login_def)
  next
    case (Inr res)
    with that show ?thesis
      by (auto simp: AuthProvider_login_def AuthService_login_def)
  qed
  show "\<exists>res. axios_post br ''/api/auth/register''
                (RegisterBody \<lparr> r_firstName = firstName, r_lastName = lastName,
                                r_email = email, r_password = password \<rparr>) = Inr res \<and>
             out = Inr () \<and> ctx_isAuthenticated s' \<and> ctx_user s' = data_user res \<and>
             storage s' = store_credentials br (storage s) res"
    if "AuthProvider_register br s firstName lastName email password = (s', out) \<and> s' \<noteq> s"
  proof (cases "axios_post br ''/api/auth/register''
                  (RegisterBody \<lparr> r_firstName = firstName, r_lastName = lastName,
                                  r_email = email, r_password = password \<rparr>)")
    case (Inl err)
    with that show ?thesis
      by (auto simp: AuthProvider_register_def AuthService_register_def)
  next
    case (Inr res)
    with that show ?thesis
      by (auto simp: AuthProvider_register_def AuthService_register_def)
  qed
  show "AuthProvider_login br s email password =
        (\<lparr> storage = store_credentials br (storage s) res,
           ctx_user = data_user res, ctx_isAuthenticated = True \<rparr>, Inr ())"
    if "axios_post br ''/api/auth/login''
          (LoginBody \<lparr> l_email = email, l_password = password \<rparr>) = Inr res"
    using that by (simp add: AuthProvider_login_def AuthService_login_def)
  show "AuthProvider_register br s firstName lastName email password =
        (\<lparr> storage = store_credentials br (storage s) res,
           ctx_user = data_user res, ctx_isAuthenticated = True \<rparr>, Inr ())"
    if "axios_post br ''/api/auth/register''
          (RegisterBody \<lparr> r_firstName = firstName, r_lastName = lastName,
                          r_email = email, r_password = password \<rparr>) = Inr res"
    using that by (simp add: AuthProvider_register_def AuthService_register_def)
  show "store_credentials br (storage s) res =
        (storage s)(''token'' \<mapsto> token res, ''user'' \<mapsto> JSON_stringify br (data_user res))"
    if "token res \<noteq> []"
    using that by (simp add: store_credentials_def)
qed

lemma wrong_password_request_fails:
  "axios_post toy_browser ''/api/auth/login''
     (LoginBody \<lparr> l_email = ''jane@example.com'', l_password = ''wrong'' \<rparr>) =
   Inl (Exn ''AxiosError'' ''Request failed with status code 401'')"
  by (simp add: toy_browser_def toy_post_def)

lemma right_password_request_succeeds:
  "axios_post toy_browser ''/api/auth/login''
     (LoginBody \<lparr> l_email = ''jane@example.com'', l_password = ''SecurePass456!'' \<rparr>) =
   Inr \<lparr> token = ''hdr.jane.sig'', data_user = jane_summary \<rparr>"
  by (simp add: toy_browser_def toy_post_def)

theorem failed_call_leaves_session_witness:
  "AuthProvider_login toy_browser signed_out ''jane@example.com'' ''wrong'' =
     (signed_out, Inl (Exn ''AxiosError'' ''Request failed with status code 401'')) \<and>
   AuthProvider_login toy_browser signed_out ''jane@example.com'' ''SecurePass456!'' =
     (\<lparr> storage = [''token'' \<mapsto> ''hdr.jane.sig'', ''user'' \<mapsto> ''{}''],
        ctx_user = jane_summary, ctx_isAuthenticated = True \<rparr>, Inr ())"
proof -
  from failed_call_leaves_session [where br = toy_browser and email = "''jane@example.com''"
      and password = "''wrong''" and s = signed_out
      and e = "Exn ''AxiosError'' ''Request failed with status code 401''"]
    wrong_password_request_fails
  have failing: "AuthProvider_login toy_browser signed_out ''jane@example.com'' ''wrong'' =
     (signed_out, Inl (Exn ''AxiosError'' ''Request failed with status code 401''))"
    by blast
  from failed_call_leaves_session [where br = toy_browser and email = "''jane@example.com''"
      and password = "''SecurePass456!''" and s = signed_out
      and res = "\<lparr> token = ''hdr.jane.sig'', data_user = jane_summary \<rparr>"]
    right_password_request_succeeds
  have passing: "AuthProvider_login toy_browser signed_out ''jane@example.com'' ''SecurePass456!'' =
     (\<lparr> storage = store_credentials toy_browser (storage signed_out)
                    \<lparr> token = ''hdr.jane.sig'', data_user = jane_summary \<rparr>,
        ctx_user = data_user \<lparr> token = ''hdr.jane.sig'', data_user = jane_summary \<rparr>,
        ctx_isAuthenticated = True \<rparr>, Inr ())"
    by blast
  from failing passing show ?thesis
    by (simp add: store_credentials_def signed_out_def toy_browser_def toy_stringify_def
        jane_summary_def)
qed

section \<open>What the client takes for a session\<close>

lemma token_ok_step: "token_ok ls \<Longrightarrow> token_ok (service_step ls c)"
  by (cases c)
     (auto simp: token_ok_def AuthService_register_def AuthService_login_def
        AuthService_logout_def store_credentials_def split: sum.splits)

lemma token_ok_run: "token_ok ls \<Longrightarrow> token_ok (service_run ls calls)"
  unfolding service_run_def
  by (induction calls arbitrary: ls) (simp_all add: token_ok_step)

lemma service_token_authenticates:
  assumes "service_run Map.empty calls ''token'' = Some t"
  shows "AuthService_isAuthenticated (service_run Map.empty calls)"
proof -
  have "token_ok (service_run Map.empty calls)"
    by (rule token_ok_run) (simp add: token_ok_def)
  with assms show ?thesis
    by (auto simp: token_ok_def AuthService_isAuthenticated_def truthy_def)
qed

text \<open>
  Claim C10, as stated, fails on two stored states. A \<open>token\<close> entry that is the empty
  string is present and yet falsy: \<open>isAuthenticated()\<close> is false and the guard redirects
  to the login view. And with a \<open>user\<close> entry that is no JSON text the provider's first
  render throws in \<open>getCurrentUser()\<close>, so the guard renders nothing.
\<close>

theorem stored_token_counterexample:
  "AuthService_isAuthenticated [''token'' \<mapsto> []] = False \<and>
   map_sum id PrivateRoute (AuthProvider_init toy_browser [''token'' \<mapsto> []]) =
     Inr (Navigate ''/login'') \<and>
   isl (AuthProvider_init toy_browser [''token'' \<mapsto> ''hdr.jane.sig'', ''user'' \<mapsto> ''{''])"
  by (simp add: AuthService_isAuthenticated_def truthy_def AuthProvider_init_def
      AuthService_getCurrentUser_def PrivateRoute_def toy_browser_def toy_parse_def)

text \<open>
  Claim C10, amended. For every non-empty string stored under \<open>token\<close>, whatever it
  is, \<open>isAuthenticated()\<close> is true; whenever the provider initialises, its flag is true
  and the guard renders the protected views; and it does initialise when no \<open>user\<close>
  entry is stored. The token is never decoded or checked on the client. The service
  itself never stores an empty token: on a storage reached from the empty one by its
  calls, a \<open>token\<close> entry that is present makes \<open>isAuthenticated()\<close> true.
\<close>

theorem nonempty_token_authenticates:
  assumes "ls ''token'' = Some tok" and "tok \<noteq> []"
  shows "AuthService_isAuthenticated ls \<and>
         (\<forall>s. AuthProvider_init br ls = Inr s \<longrightarrow>
                ctx_isAuthenticated s \<and> PrivateRoute s = Outlet) \<and>
         (falsy (ls ''user'') \<longrightarrow>
            map_sum id PrivateRoute (AuthProvider_init br ls) = Inr Outlet) \<and>
         (\<forall>calls t. service_run Map.empty calls ''token'' = Some t \<longrightarrow>
            AuthService_isAuthenticated (service_run Map.empty calls))"
proof (intro conjI allI impI)
  show "AuthService_isAuthenticated ls"
    using assms by (simp add: AuthService_isAuthenticated_def truthy_def)
  show "ctx_isAuthenticated s" if "AuthProvider_init br ls = Inr s" for s
    using that assms
    by (auto simp: AuthService_isAuthenticated_def truthy_def AuthProvider_init_def
        split: sum.splits)
  show "PrivateRoute s = Outlet" if "AuthProvider_init br ls = Inr s" for s
    using that assms
    by (auto simp: AuthService_isAuthenticated_def truthy_def AuthProvider_init_def
        PrivateRoute_def split: sum.splits)
  show "map_sum id PrivateRoute (AuthProvider_init br ls) = Inr Outlet" if "falsy (ls ''user'')"
    using that assms
    by (simp add: AuthService_isAuthenticated_def truthy_def falsy_def AuthProvider_init_def
        AuthService_getCurrentUser_def PrivateRoute_def)
  show "AuthService_isAuthenticated (service_run Map.empty calls)"
    if "service_run Map.empty calls ''token'' = Some t" for calls t
    using that by (rule service_token_authenticates)
qed

theorem nonempty_token_authenticates_witness:
  "isl (jwt_verify toy_deps 2000 ''garbage'' (JWT_SECRET prod_env)) \<and>
   AuthService_isAuthenticated [''token'' \<mapsto> ''garbage''] \<and>
   map_sum id PrivateRoute (AuthProvider_init toy_browser [''token'' \<mapsto> ''garbage'']) =
     Inr Outlet"
proof -
  have stored: "[''token'' \<mapsto> ''garbage''] ''token'' = Some ''garbage''"
    by simp
  have nonempty: "''garbage'' \<noteq> []"
    by simp
  have no_user: "falsy ([''token'' \<mapsto> ''garbage''] ''user'')"
    by (simp add: falsy_def)
  have rejected: "isl (jwt_verify toy_deps 2000 ''garbage'' (JWT_SECRET prod_env))"
    by (simp add: jwt_verify_def toy_deps_def toy_decode_def)
  from nonempty_token_authenticates [where ls = "[''token'' \<mapsto> ''garbage'']"
      and tok = "''garbage''" and br = toy_browser, OF stored nonempty] no_user rejected
  show ?thesis by blast
qed

end
